theory Spec2Isabelle
  imports Main
begin

section \<open>Go primitives the backend relies on\<close>

text \<open>
  The service is a single Go file (\<^verbatim>\<open>data-driven-decaf.go\<close>) plus the client of the
  verification service (\<^verbatim>\<open>sendJson\<close>). Strings are byte lists. Go's \<^verbatim>\<open>int\<close> is taken to
  be 64 bits wide (the platforms the service is built for); sums of prices wrap around as
  two's complement does.
\<close>

definition to_int64 :: "int \<Rightarrow> int" where
  "to_int64 x = (x + 2 ^ 63) mod 2 ^ 64 - 2 ^ 63"

subsection \<open>\<^verbatim>\<open>strings.Split\<close> with a one-byte separator\<close>

text \<open>
  \<^verbatim>\<open>strings.Split(s, sep)\<close> cuts \<open>s\<close> at every occurrence of the separator; the result
  always has at least one element (the whole string when the separator does not occur).
\<close>

fun strings_Split :: "string \<Rightarrow> char \<Rightarrow> string list" where
  "strings_Split [] sep = [[]]"
| "strings_Split (c # cs) sep =
     (if c = sep then [] # strings_Split cs sep
      else (case strings_Split cs sep of
              [] \<Rightarrow> [[c]]
            | x # xs \<Rightarrow> (c # x) # xs))"

subsection \<open>\<^verbatim>\<open>strconv.Atoi\<close>\<close>

text \<open>
  \<^verbatim>\<open>strconv.Atoi(s)\<close> is \<^verbatim>\<open>ParseInt(s, 10, 0)\<close>: an optional sign, then
  \<^verbatim>\<open>ParseUint\<close> over the rest, which walks the bytes, fails with a syntax error at the first
  byte that is not a decimal digit and with a range error as soon as the accumulated value
  leaves 64 bits; \<^verbatim>\<open>ParseInt\<close> then checks the signed range.
\<close>

datatype num_error = ErrSyntax | ErrRange

definition is_digit :: "char \<Rightarrow> bool" where
  "is_digit c = (48 \<le> (of_char c :: nat) \<and> (of_char c :: nat) \<le> 57)"

definition digit_val :: "char \<Rightarrow> nat" where
  "digit_val c = of_char c - 48"

definition maxUint64 :: nat where
  "maxUint64 = 18446744073709551615"

fun ParseUint_loop :: "nat \<Rightarrow> string \<Rightarrow> num_error + nat" where
  "ParseUint_loop n [] = Inr n"
| "ParseUint_loop n (c # cs) =
     (if \<not> is_digit c then Inl ErrSyntax
      else if n \<ge> maxUint64 div 10 + 1 then Inl ErrRange
      else (let n1 = n * 10 + digit_val c in
            if n1 > maxUint64 then Inl ErrRange else ParseUint_loop n1 cs))"

definition ParseUint :: "string \<Rightarrow> num_error + nat" where
  "ParseUint s = (if s = [] then Inl ErrSyntax else ParseUint_loop 0 s)"

definition ParseInt :: "string \<Rightarrow> num_error + int" where
  "ParseInt s =
     (case s of
        [] \<Rightarrow> Inl ErrSyntax
      | c # cs \<Rightarrow>
          (let neg = (c = CHR ''-'');
               s1 = (if c = CHR ''+'' \<or> c = CHR ''-'' then cs else s)
           in case ParseUint s1 of
                Inl ErrSyntax \<Rightarrow> Inl ErrSyntax
              | r \<Rightarrow>
                  (let un = (case r of Inr n \<Rightarrow> n | Inl _ \<Rightarrow> maxUint64) in
                   if \<not> neg \<and> un \<ge> 2 ^ 63 then Inl ErrRange
                   else if neg \<and> un > 2 ^ 63 then Inl ErrRange
                   else Inr (if neg then - int un else int un))))"

definition Atoi :: "string \<Rightarrow> num_error + int" where
  "Atoi s = ParseInt s"

section \<open>Data model\<close>

record DDDBondPayload =
  MagicCoffee :: string
  Total :: int
  Project :: string
  DB :: string

record DBConnectionInfo =
  User :: string
  Pass :: string
  DBName :: string
  DBRegion :: string
  DBCluster :: string
  DBInstance :: string
  ProjectID :: string

text \<open>The zero value of the payload: what a named result holds before anything is assigned.\<close>

definition zero_payload :: DDDBondPayload where
  "zero_payload = \<lparr>MagicCoffee = [], Total = 0, Project = [], DB = []\<rparr>"

definition zero_info :: DBConnectionInfo where
  "zero_info = \<lparr>User = [], Pass = [], DBName = [], DBRegion = [], DBCluster = [],
                 DBInstance = [], ProjectID = []\<rparr>"

text \<open>
  Errors are Go \<^verbatim>\<open>error\<close> values. Three are made by the service itself with
  \<^verbatim>\<open>fmt.Errorf\<close>; every other one comes out of a library call and is carried with its text.
\<close>

datatype error =
    ErrEnvNotSet
  | ErrClusterNotSet
  | ErrExpected200
  | ErrLib string

fun Error_text :: "error \<Rightarrow> string" where
  "Error_text ErrEnvNotSet = ''ensure required environment variables are set''"
| "Error_text ErrClusterNotSet = ''expected db cluster to be set''"
| "Error_text ErrExpected200 = ''expected 200 response''"
| "Error_text (ErrLib m) = m"

datatype panic = IndexOutOfRange | TypeAssertion | NilDereference

section \<open>The environment and the configuration resolver\<close>

type_synonym env = "string \<rightharpoonup> string"

text \<open>\<^verbatim>\<open>os.Getenv\<close>: the value, or the empty string when the variable is not set.\<close>

definition Getenv :: "env \<Rightarrow> string \<Rightarrow> string" where
  "Getenv e k = (case e k of None \<Rightarrow> [] | Some v \<Rightarrow> v)"

text \<open>
  \<^verbatim>\<open>dbConnectionInfo\<close> (lines 40-62). The global \<^verbatim>\<open>cfg.ProjectID\<close> is declared
  outside the file and is a parameter here. Go returns the pair \<^verbatim>\<open>(info, err)\<close>.
\<close>

definition dbConnectionInfo :: "env \<Rightarrow> string \<Rightarrow> DBConnectionInfo \<times> error option" where
  "dbConnectionInfo e cfg_ProjectID =
     (let user = Getenv e ''DB_USER'';
          pass = Getenv e ''DB_PASS'';
          dbName = Getenv e ''DB_NAME'';
          dbRegion = Getenv e ''DB_REGION'';
          dbCluster = Getenv e ''DB_CLUSTER'';
          dbInstance = Getenv e ''DB_INSTANCE'';
          dbProject = Getenv e ''DB_PROJECT''
      in if user = [] \<or> pass = [] \<or> dbInstance = [] \<or> dbName = []
         then (zero_info, Some ErrEnvNotSet)
         else (let dbProject = (if dbProject = [] then cfg_ProjectID else dbProject)
               in (\<lparr>User = user, Pass = pass, DBName = dbName, DBRegion = dbRegion,
                    DBCluster = dbCluster, DBInstance = dbInstance, ProjectID = dbProject\<rparr>,
                   None)))"

section \<open>Row aggregation\<close>

definition defaultQuery :: string where
  "defaultQuery = ''select * from coffee''"

text \<open>
  The price column up to its first \<^verbatim>\<open>.\<close>, converted:
  \<^verbatim>\<open>strconv.Atoi(strings.Split(price, ".")[0])\<close>. The split is never empty
  (lemma \<open>strings_Split_not_Nil\<close> below), so element 0 exists.
\<close>

definition price_int :: "string \<Rightarrow> num_error + int" where
  "price_int price = Atoi (hd (strings_Split price (CHR ''.'')))"

subsection \<open>MySQL: the loop of \<^verbatim>\<open>DDDMySQLConnect\<close> (lines 109-130)\<close>

text \<open>
  A row of the cursor is what \<^verbatim>\<open>rows.Scan(&i, &bean, &price)\<close> makes of it: an error, or
  the three scanned columns. \<^verbatim>\<open>rows.Next()\<close> returning false ends the list. The messages
  written with \<^verbatim>\<open>log.Printf\<close> inside the loops and connection builders go to the process
  log only and are not part of the model.
\<close>

type_synonym mysql_row = "error + (int \<times> string \<times> string)"

fun DDDMySQLConnect_loop ::
  "DDDBondPayload \<Rightarrow> mysql_row list \<Rightarrow> DDDBondPayload \<times> error option" where
  "DDDMySQLConnect_loop result [] = (result, None)"
| "DDDMySQLConnect_loop result (Inl err # rows) = (result, Some err)"
| "DDDMySQLConnect_loop result (Inr (i, bean, price) # rows) =
     (let result = (if i = 51 then result\<lparr>MagicCoffee := bean\<rparr> else result)
      in case price_int price of
           Inl _ \<Rightarrow> DDDMySQLConnect_loop result rows
         | Inr p \<Rightarrow>
             DDDMySQLConnect_loop (result\<lparr>Total := to_int64 (Total result + p)\<rparr>) rows)"

subsection \<open>Postgres: \<^verbatim>\<open>DDDPostgresRows\<close> (lines 223-251)\<close>

text \<open>
  \<^verbatim>\<open>rows.Values()\<close> gives an error or a slice of dynamically typed column values;
  \<^verbatim>\<open>values[k].(string)\<close> panics when the slice is too short or the value is not a string.
  The counter \<open>i\<close> is a Go \<^verbatim>\<open>int\<close> that starts at 0 and only grows by one per row, so
  it stays far below the point of wrap-around and is a natural number here.
\<close>

datatype go_value = GoString string | GoInt int | GoNil | GoOther

type_synonym pg_row = "error + go_value list"

definition string_at :: "go_value list \<Rightarrow> nat \<Rightarrow> panic + string" where
  "string_at values k =
     (if k < length values
      then (case values ! k of GoString s \<Rightarrow> Inr s | _ \<Rightarrow> Inl TypeAssertion)
      else Inl IndexOutOfRange)"

fun DDDPostgresRows_loop ::
  "nat \<Rightarrow> DDDBondPayload \<Rightarrow> pg_row list \<Rightarrow> panic + (DDDBondPayload \<times> error option)" where
  "DDDPostgresRows_loop i result [] = Inr (result, None)"
| "DDDPostgresRows_loop i result (Inl err # rows) = Inr (result, Some err)"
| "DDDPostgresRows_loop i result (Inr values # rows) =
     (case (if i = 50
            then (case string_at values 1 of
                    Inl pn \<Rightarrow> Inl pn
                  | Inr s \<Rightarrow> Inr (result\<lparr>MagicCoffee := s\<rparr>))
            else Inr result) of
        Inl pn \<Rightarrow> Inl pn
      | Inr result \<Rightarrow>
          (case string_at values 2 of
             Inl pn \<Rightarrow> Inl pn
           | Inr price \<Rightarrow>
               (case price_int price of
                  Inl _ \<Rightarrow> DDDPostgresRows_loop i result rows
                | Inr p \<Rightarrow>
                    DDDPostgresRows_loop (i + 1)
                      (result\<lparr>Total := to_int64 (Total result + p)\<rparr>) rows)))"

section \<open>The world outside the process\<close>

text \<open>
  Every call that leaves the process (drivers, connectors, the database, the HTTP client)
  is answered by the \<open>world\<close>: a record of what each call returns. The two process-wide
  globals the handler reads, \<^verbatim>\<open>cfg.ProjectID\<close> and \<^verbatim>\<open>bondCfg.BondURL\<close>, are fields
  of it as well. What the process does to the outside is recorded as a list of events.
\<close>

record http_response =
  StatusCode :: int
  Body :: string
  ReadErr :: "error option"

record world =
  cfg_ProjectID :: string
  bondCfg_BondURL :: string
  pgxpool_ParseConfig :: "string \<Rightarrow> error option"
  alloydbconn_NewDialer :: "error option"
  cloudsqlconn_NewDialer :: "error option"
  pgxpool_ConnectConfig :: "string \<Rightarrow> error option"
  pool_Query :: "error + pg_row list"
  sql_Open :: "string \<Rightarrow> error option"
  db_Query :: "error + mysql_row list"
  http_NewRequest :: "string \<Rightarrow> error option"
  client_Do :: "error + http_response"

datatype json_value = JString string | JNumber int

type_synonym json_object = "(string \<times> json_value) list"

datatype event =
    NewAlloyDBDialer
  | NewCloudSQLDialer
  | PoolConnect string
  | SqlOpen string
  | RunQuery string
  | HttpPost string json_object
  | LogUnknownDBType string
  | LogError error
  | LogResult DDDBondPayload
  | LogBody string
  | LogResponse string

text \<open>An event that reaches for the database: a connector dialer, a pool, a handle, a query.\<close>

fun is_db_event :: "event \<Rightarrow> bool" where
  "is_db_event NewAlloyDBDialer = True"
| "is_db_event NewCloudSQLDialer = True"
| "is_db_event (PoolConnect _) = True"
| "is_db_event (SqlOpen _) = True"
| "is_db_event (RunQuery _) = True"
| "is_db_event _ = False"

text \<open>An event that opens a connection to a database or talks over one.\<close>

fun is_connection_event :: "event \<Rightarrow> bool" where
  "is_connection_event (PoolConnect _) = True"
| "is_connection_event (SqlOpen _) = True"
| "is_connection_event (RunQuery _) = True"
| "is_connection_event _ = False"

definition defaultBondURL :: string where
  "defaultBondURL = ''https://bond-service-l5xebjflvq-ew.a.run.app''"

text \<open>\<^verbatim>\<open>initBond\<close>: the value \<^verbatim>\<open>bondCfg.BondURL\<close> gets at start-up.\<close>

definition initBond :: "env \<Rightarrow> string" where
  "initBond e =
     (let url = Getenv e ''BOND_SERVICE_URL''
      in if url = [] then defaultBondURL else url)"

section \<open>Connection builders\<close>

text \<open>
  A connection builder returns the events it caused and either a panic or Go's pair
  \<^verbatim>\<open>(result, err)\<close>.
\<close>

type_synonym connect_result = "event list \<times> (panic + (DDDBondPayload \<times> error option))"

text \<open>The four strings the builders make with \<^verbatim>\<open>fmt.Sprintf\<close>.\<close>

definition mysql_dsn :: "DBConnectionInfo \<Rightarrow> string" where
  "mysql_dsn info =
     User info @ '':'' @ Pass info @ ''@cloudsql-mysql('' @ ProjectID info @ '':'' @
     DBRegion info @ '':'' @ DBInstance info @ '')/'' @ DBName info"

definition postgres_dsn :: "DBConnectionInfo \<Rightarrow> string" where
  "postgres_dsn info =
     ''user='' @ User info @ '' password='' @ Pass info @ '' dbname='' @ DBName info @
     '' sslmode=disable''"

definition alloydb_instance_uri :: "DBConnectionInfo \<Rightarrow> string" where
  "alloydb_instance_uri info =
     ''projects/'' @ ProjectID info @ ''/locations/'' @ DBRegion info @ ''/clusters/'' @
     DBCluster info @ ''/instances/'' @ DBInstance info"

definition cloudsql_instance_name :: "DBConnectionInfo \<Rightarrow> string" where
  "cloudsql_instance_name info =
     ProjectID info @ '':'' @ DBRegion info @ '':'' @ DBInstance info"

definition DDDMySQLConnect :: "env \<Rightarrow> world \<Rightarrow> connect_result" where
  "DDDMySQLConnect e w =
     (case dbConnectionInfo e (cfg_ProjectID w) of
        (info, Some err) \<Rightarrow> ([], Inr (zero_payload, Some err))
      | (info, None) \<Rightarrow>
          (let dsn = mysql_dsn info
           in case sql_Open w dsn of
                Some err \<Rightarrow> ([SqlOpen dsn], Inr (zero_payload, Some err))
              | None \<Rightarrow>
                  (case db_Query w of
                     Inl err \<Rightarrow>
                       ([SqlOpen dsn, RunQuery defaultQuery], Inr (zero_payload, Some err))
                   | Inr rows \<Rightarrow>
                       ([SqlOpen dsn, RunQuery defaultQuery],
                        Inr (DDDMySQLConnect_loop zero_payload rows)))))"

text \<open>
  \<^verbatim>\<open>DDDPostgresConnection\<close>: the pool configuration (known here by its DSN), or
  \<^verbatim>\<open>nil\<close> with an error.
\<close>

definition DDDPostgresConnection :: "env \<Rightarrow> world \<Rightarrow> string option \<times> error option" where
  "DDDPostgresConnection e w =
     (case dbConnectionInfo e (cfg_ProjectID w) of
        (info, Some err) \<Rightarrow> (None, Some err)
      | (info, None) \<Rightarrow>
          (let dsn = postgres_dsn info
           in case pgxpool_ParseConfig w dsn of
                Some err \<Rightarrow> (None, Some err)
              | None \<Rightarrow> (Some dsn, None)))"

definition DDDPostgresRows :: "world \<Rightarrow> connect_result" where
  "DDDPostgresRows w =
     (case pool_Query w of
        Inl err \<Rightarrow> ([RunQuery defaultQuery], Inr (zero_payload, Some err))
      | Inr rows \<Rightarrow> ([RunQuery defaultQuery], DDDPostgresRows_loop 0 zero_payload rows))"

definition DDDAlloyConnect :: "env \<Rightarrow> world \<Rightarrow> connect_result" where
  "DDDAlloyConnect e w =
     (case DDDPostgresConnection e w of
        (c, Some err) \<Rightarrow> ([], Inr (zero_payload, Some err))
      | (c, None) \<Rightarrow>
          (case alloydbconn_NewDialer w of
             Some err \<Rightarrow> ([NewAlloyDBDialer], Inr (zero_payload, Some err))
           | None \<Rightarrow>
               (case dbConnectionInfo e (cfg_ProjectID w) of
                  (info, Some err) \<Rightarrow> ([NewAlloyDBDialer], Inr (zero_payload, Some err))
                | (info, None) \<Rightarrow>
                    if DBCluster info = []
                    then ([NewAlloyDBDialer], Inr (zero_payload, Some ErrClusterNotSet))
                    else (case c of
                            None \<Rightarrow> ([NewAlloyDBDialer], Inl NilDereference)
                          | Some conf \<Rightarrow>
                              (let target = alloydb_instance_uri info
                               in case pgxpool_ConnectConfig w target of
                                    Some err \<Rightarrow>
                                      ([NewAlloyDBDialer, PoolConnect target],
                                       Inr (zero_payload, Some err))
                                  | None \<Rightarrow>
                                      (case DDDPostgresRows w of
                                         (evs, r) \<Rightarrow>
                                           ([NewAlloyDBDialer, PoolConnect target] @ evs, r)))))))"

text \<open>
  \<^verbatim>\<open>DDDPostgresConnect\<close> drops the error of \<^verbatim>\<open>DDDPostgresConnection\<close> (the next
  \<^verbatim>\<open>:=\<close> overwrites it), so a configuration that failed to parse is dereferenced as
  \<^verbatim>\<open>nil\<close> further down.
\<close>

definition DDDPostgresConnect :: "env \<Rightarrow> world \<Rightarrow> connect_result" where
  "DDDPostgresConnect e w =
     (case DDDPostgresConnection e w of
        (c, _) \<Rightarrow>
          (case cloudsqlconn_NewDialer w of
             Some err \<Rightarrow> ([NewCloudSQLDialer], Inr (zero_payload, Some err))
           | None \<Rightarrow>
               (case dbConnectionInfo e (cfg_ProjectID w) of
                  (info, Some err) \<Rightarrow> ([NewCloudSQLDialer], Inr (zero_payload, Some err))
                | (info, None) \<Rightarrow>
                    (case c of
                       None \<Rightarrow> ([NewCloudSQLDialer], Inl NilDereference)
                     | Some conf \<Rightarrow>
                         (let target = cloudsql_instance_name info
                          in case pgxpool_ConnectConfig w target of
                               Some err \<Rightarrow>
                                 ([NewCloudSQLDialer, PoolConnect target],
                                  Inr (zero_payload, Some err))
                             | None \<Rightarrow>
                                 (case DDDPostgresRows w of
                                    (evs, r) \<Rightarrow>
                                      ([NewCloudSQLDialer, PoolConnect target] @ evs, r)))))))"

section \<open>The verification client\<close>

text \<open>
  \<^verbatim>\<open>json.Marshal\<close> of the payload: every field carries \<^verbatim>\<open>omitempty\<close>, so a field is
  written only when it is not the zero value of its type. The object is kept as the list
  of its members in the order they are written; the escaping of string contents into JSON
  text is not modelled. Marshalling this struct cannot fail.
\<close>

definition json_Marshal :: "DDDBondPayload \<Rightarrow> json_object" where
  "json_Marshal p =
     (if MagicCoffee p = [] then [] else [(''magic_coffee'', JString (MagicCoffee p))]) @
     (if Total p = 0 then [] else [(''total'', JNumber (Total p))]) @
     (if Project p = [] then [] else [(''project'', JString (Project p))]) @
     (if DB p = [] then [] else [(''db'', JString (DB p))])"

text \<open>
  \<^verbatim>\<open>sendJson\<close> returns \<^verbatim>\<open>(b, err)\<close>; \<open>None\<close> for \<open>b\<close> is the \<^verbatim>\<open>nil\<close> slice the
  named result holds until \<^verbatim>\<open>io.ReadAll\<close> assigns it.
\<close>

definition sendJson ::
  "world \<Rightarrow> string \<Rightarrow> DDDBondPayload \<Rightarrow> event list \<times> string option \<times> error option" where
  "sendJson w endpoint body =
     (let bodyBytes = json_Marshal body;
          url = bondCfg_BondURL w @ endpoint
      in case http_NewRequest w url of
           Some err \<Rightarrow> ([], None, Some err)
         | None \<Rightarrow>
             (case client_Do w of
                Inl err \<Rightarrow> ([HttpPost url bodyBytes], None, Some err)
              | Inr res \<Rightarrow>
                  if StatusCode res < 200 \<or> StatusCode res > 299
                  then ([HttpPost url bodyBytes], None, Some ErrExpected200)
                  else (case ReadErr res of
                          Some err \<Rightarrow> ([HttpPost url bodyBytes], Some (Body res), Some err)
                        | None \<Rightarrow> ([HttpPost url bodyBytes], Some (Body res), None))))"

section \<open>The request handler\<close>

datatype http_body = PlainText string | JsonText json_object

datatype response = Responded int http_body | Panicked panic

definition StatusInternalServerError :: int where
  "StatusInternalServerError = 500"

definition StatusOK :: int where
  "StatusOK = 200"

text \<open>\<^verbatim>\<open>http.Error\<close> writes the message and a newline as plain text.\<close>

definition http_Error :: "string \<Rightarrow> int \<Rightarrow> response" where
  "http_Error msg code = Responded code (PlainText (msg @ [CHR 0x0A]))"

text \<open>
  The part of \<^verbatim>\<open>dddHandler\<close> after the \<^verbatim>\<open>switch\<close> (lines 293-312), preceded by the
  error check that each of the three recognised cases repeats word for word.
\<close>

definition dddHandler_verify :: "env \<Rightarrow> world \<Rightarrow> connect_result \<Rightarrow> event list \<times> response" where
  "dddHandler_verify e w cr =
     (case cr of
        (evs, Inl pn) \<Rightarrow> (evs, Panicked pn)
      | (evs, Inr (result, Some err)) \<Rightarrow>
          (evs @ [LogError err],
           http_Error (''Error: '' @ Error_text err) StatusInternalServerError)
      | (evs, Inr (result, None)) \<Rightarrow>
          (let result = result\<lparr>Project := cfg_ProjectID w\<rparr>;
               result = result\<lparr>DB := Getenv e ''DB_TYPE''\<rparr>;
               evs = evs @ [LogResult result]
           in case sendJson w ''/v1/data_driven_decaf/verify'' result of
                (evs2, res, Some err) \<Rightarrow>
                  (evs @ evs2 @
                     (case res of None \<Rightarrow> [] | Some b \<Rightarrow> [LogBody b]) @ [LogError err],
                   http_Error (''Data-Driven Decaf Error: '' @ Error_text err)
                     StatusInternalServerError)
              | (evs2, res, None) \<Rightarrow>
                  (evs @ evs2 @ [LogResponse (case res of None \<Rightarrow> [] | Some b \<Rightarrow> b)],
                   Responded StatusOK (JsonText (json_Marshal result)))))"

definition dddHandler :: "env \<Rightarrow> world \<Rightarrow> event list \<times> response" where
  "dddHandler e w =
     (let dbType = Getenv e ''DB_TYPE''
      in if dbType = ''ALLOY_DB'' then dddHandler_verify e w (DDDAlloyConnect e w)
         else if dbType = ''CLOUD_SQL_POSTGRES''
           then dddHandler_verify e w (DDDPostgresConnect e w)
         else if dbType = ''CLOUD_SQL_MYSQL'' then dddHandler_verify e w (DDDMySQLConnect e w)
         else ([LogUnknownDBType dbType],
               http_Error (''Error: Unknown DB type '' @ dbType) StatusInternalServerError))"

section \<open>What the properties are stated with\<close>

text \<open>
  The value of a run of decimal digits, and the integer an optionally signed decimal
  numeral denotes. These follow the usual reading of the words, not the conversion code.
\<close>

definition dec_val :: "string \<Rightarrow> nat" where
  "dec_val ds = foldl (\<lambda>n c. n * 10 + digit_val c) 0 ds"

definition spec_int_literal :: "string \<Rightarrow> int option" where
  "spec_int_literal s =
     (case s of
        [] \<Rightarrow> None
      | c # cs \<Rightarrow>
          (let ds = (if c = CHR ''+'' \<or> c = CHR ''-'' then cs else s)
           in if ds \<noteq> [] \<and> list_all is_digit ds
              then Some (if c = CHR ''-'' then - int (dec_val ds) else int (dec_val ds))
              else None))"

text \<open>
  The leading integer of a price: the text before its first \<^verbatim>\<open>.\<close>, read as a numeral,
  when that numeral fits Go's \<^verbatim>\<open>int\<close>.
\<close>

definition leading_int :: "string \<Rightarrow> int option" where
  "leading_int price =
     (case spec_int_literal (takeWhile (\<lambda>c. c \<noteq> CHR ''.'') price) of
        None \<Rightarrow> None
      | Some v \<Rightarrow> if - (2 ^ 63) \<le> v \<and> v < 2 ^ 63 then Some v else None)"

text \<open>
  The rows of a MySQL cursor that are scanned before the first scan error, and that error.
\<close>

fun scanned :: "mysql_row list \<Rightarrow> (int \<times> string \<times> string) list" where
  "scanned [] = []"
| "scanned (Inl err # rows) = []"
| "scanned (Inr r # rows) = r # scanned rows"

fun scan_error :: "mysql_row list \<Rightarrow> error option" where
  "scan_error [] = None"
| "scan_error (Inl err # rows) = Some err"
| "scan_error (Inr r # rows) = scan_error rows"

text \<open>Whether the conversion of a price succeeds.\<close>

definition price_ok :: "string \<Rightarrow> bool" where
  "price_ok price = (case price_int price of Inl _ \<Rightarrow> False | Inr _ \<Rightarrow> True)"

text \<open>
  A Postgres cursor row of the three-column table whose second and third columns are text:
  the first column may hold any value.
\<close>

definition pg_row_of :: "go_value \<times> string \<times> string \<Rightarrow> pg_row" where
  "pg_row_of r = (case r of (idv, name, price) \<Rightarrow> Inr [idv, GoString name, GoString price])"

text \<open>The sentinel of a run of the Postgres loop that returned without an error.\<close>

definition pg_sentinel :: "panic + (DDDBondPayload \<times> error option) \<Rightarrow> string option" where
  "pg_sentinel r = (case r of Inr (res, None) \<Rightarrow> Some (MagicCoffee res) | _ \<Rightarrow> None)"

text \<open>How many of the first \<open>j\<close> rows have a price that converts.\<close>

definition parsed_before :: "(go_value \<times> string \<times> string) list \<Rightarrow> nat \<Rightarrow> nat" where
  "parsed_before rs j = length (filter (\<lambda>r. price_ok (snd (snd r))) (take j rs))"

section \<open>Facts about the primitives\<close>

lemma strings_Split_not_Nil: "strings_Split s sep \<noteq> []"
  by (induction s) (auto split: list.splits)

lemma hd_strings_Split: "hd (strings_Split s sep) = takeWhile (\<lambda>c. c \<noteq> sep) s"
  by (induction s) (auto split: list.splits simp: strings_Split_not_Nil)

lemma foldl_dec_ge: "n \<le> foldl (\<lambda>n c. n * 10 + digit_val c) n ds"
proof (induction ds arbitrary: n)
  case Nil
  show ?case by simp
next
  case (Cons c cs)
  have "n \<le> n * 10 + digit_val c" by simp
  also have "\<dots> \<le> foldl (\<lambda>n c. n * 10 + digit_val c) (n * 10 + digit_val c) cs"
    by (rule Cons.IH)
  finally show ?case by simp
qed

lemma ParseUint_loop_Inr_iff:
  "n \<le> maxUint64 \<Longrightarrow>
   ParseUint_loop n ds = Inr m \<longleftrightarrow>
     list_all is_digit ds \<and> m = foldl (\<lambda>n c. n * 10 + digit_val c) n ds \<and> m \<le> maxUint64"
proof (induction ds arbitrary: n)
  case Nil
  then show ?case by auto
next
  case (Cons c cs)
  let ?n1 = "n * 10 + digit_val c"
  show ?case
  proof (cases "is_digit c")
    case False
    then show ?thesis by simp
  next
    case dig: True
    show ?thesis
    proof (cases "?n1 \<le> maxUint64")
      case True
      then have "\<not> n \<ge> maxUint64 div 10 + 1"
        by (simp add: maxUint64_def)
      with dig True Cons.IH [OF True] show ?thesis
        by (simp add: Let_def)
    next
      case False
      then have "\<not> foldl (\<lambda>n c. n * 10 + digit_val c) ?n1 cs \<le> maxUint64"
        using foldl_dec_ge [of ?n1 cs] by linarith
      with dig False show ?thesis
        by (auto simp: Let_def)
    qed
  qed
qed

lemma ParseUint_loop_no_syntax:
  "list_all is_digit ds \<Longrightarrow> ParseUint_loop n ds \<noteq> Inl ErrSyntax"
  by (induction ds arbitrary: n) (auto simp: Let_def)

lemma ParseUint_Inr_iff:
  "ParseUint ds = Inr m \<longleftrightarrow>
     ds \<noteq> [] \<and> list_all is_digit ds \<and> m = dec_val ds \<and> m \<le> maxUint64"
  using ParseUint_loop_Inr_iff [of 0 ds m]
  by (auto simp: ParseUint_def dec_val_def)

lemma Atoi_Inr_iff:
  "Atoi s = Inr v \<longleftrightarrow> spec_int_literal s = Some v \<and> - (2 ^ 63) \<le> v \<and> v < 2 ^ 63"
proof (cases s)
  case Nil
  then show ?thesis by (simp add: Atoi_def ParseInt_def spec_int_literal_def)
next
  case (Cons c cs)
  define neg where "neg = (c = CHR ''-'')"
  define s1 where "s1 = (if c = CHR ''+'' \<or> c = CHR ''-'' then cs else s)"
  have spec: "spec_int_literal s =
      (if s1 \<noteq> [] \<and> list_all is_digit s1
       then Some (if neg then - int (dec_val s1) else int (dec_val s1)) else None)"
    by (simp add: spec_int_literal_def Cons s1_def neg_def Let_def)
  have code: "Atoi s =
      (case ParseUint s1 of
         Inl ErrSyntax \<Rightarrow> Inl ErrSyntax
       | r \<Rightarrow>
           (let un = (case r of Inr n \<Rightarrow> n | Inl _ \<Rightarrow> maxUint64) in
            if \<not> neg \<and> un \<ge> 2 ^ 63 then Inl ErrRange
            else if neg \<and> un > 2 ^ 63 then Inl ErrRange
            else Inr (if neg then - int un else int un)))"
    unfolding neg_def s1_def Atoi_def ParseInt_def Cons by (simp add: Let_def)
  consider (ok) un where "ParseUint s1 = Inr un"
    | (syn) "ParseUint s1 = Inl ErrSyntax"
    | (rng) "ParseUint s1 = Inl ErrRange"
    by (cases "ParseUint s1") (auto intro: num_error.exhaust)
  then show ?thesis
  proof cases
    case ok
    then have facts: "s1 \<noteq> []" "list_all is_digit s1" "un = dec_val s1" "un \<le> maxUint64"
      by (simp_all add: ParseUint_Inr_iff)
    show ?thesis
      unfolding code spec using ok facts by (auto simp: Let_def)
  next
    case syn
    have "\<not> (s1 \<noteq> [] \<and> list_all is_digit s1)"
    proof
      assume a: "s1 \<noteq> [] \<and> list_all is_digit s1"
      then have "ParseUint_loop 0 s1 \<noteq> Inl ErrSyntax"
        by (simp add: ParseUint_loop_no_syntax)
      with a syn show False by (simp add: ParseUint_def)
    qed
    then show ?thesis unfolding code spec using syn by auto
  next
    case rng
    have big: "s1 \<noteq> [] \<and> list_all is_digit s1 \<Longrightarrow> \<not> dec_val s1 \<le> maxUint64"
      using ParseUint_Inr_iff [of s1 "dec_val s1"] rng by auto
    show ?thesis
      unfolding code spec using rng big by (auto simp: Let_def maxUint64_def)
  qed
qed

section \<open>One row of either loop\<close>

lemma to_int64_id: "- (2 ^ 63) \<le> x \<Longrightarrow> x < 2 ^ 63 \<Longrightarrow> to_int64 x = x"
  by (simp add: to_int64_def)

lemma price_int_Inr_iff: "price_int price = Inr v \<longleftrightarrow> leading_int price = Some v"
  by (auto simp: price_int_def leading_int_def hd_strings_Split Atoi_Inr_iff
           split: option.splits)

lemma price_int_Inl_iff: "(\<exists>e. price_int price = Inl e) \<longleftrightarrow> leading_int price = None"
proof (cases "price_int price")
  case (Inl e)
  then have "\<forall>v. leading_int price \<noteq> Some v"
    by (simp add: price_int_Inr_iff [symmetric])
  with Inl show ?thesis by auto
next
  case (Inr v)
  then have "leading_int price = Some v" by (simp add: price_int_Inr_iff)
  with Inr show ?thesis by simp
qed

lemma is_digit_not_dot: "is_digit c \<Longrightarrow> c \<noteq> CHR ''.''"
  by (auto simp: is_digit_def)

lemma is_digit_not_sign: "is_digit c \<Longrightarrow> c \<noteq> CHR ''+'' \<and> c \<noteq> CHR ''-''"
  by (auto simp: is_digit_def)

lemma takeWhile_digits_dot:
  "list_all is_digit ds \<Longrightarrow> takeWhile (\<lambda>c. c \<noteq> CHR ''.'') (ds @ CHR ''.'' # fs) = ds"
  by (induction ds) (auto simp: is_digit_not_dot)

lemma spec_int_literal_digits:
  "ds \<noteq> [] \<Longrightarrow> list_all is_digit ds \<Longrightarrow> spec_int_literal ds = Some (int (dec_val ds))"
  by (cases ds) (auto simp: spec_int_literal_def is_digit_not_sign)

lemma leading_int_digits:
  "ds \<noteq> [] \<Longrightarrow> list_all is_digit ds \<Longrightarrow>
   leading_int (ds @ CHR ''.'' # fs) =
     (if dec_val ds < 2 ^ 63 then Some (int (dec_val ds)) else None)"
  by (simp add: leading_int_def takeWhile_digits_dot spec_int_literal_digits)

lemma mysql_step:
  "DDDMySQLConnect_loop result (Inr (i, bean, price) # rows) =
     (case leading_int price of
        None \<Rightarrow> DDDMySQLConnect_loop (if i = 51 then result\<lparr>MagicCoffee := bean\<rparr> else result) rows
      | Some v \<Rightarrow>
          DDDMySQLConnect_loop
            ((if i = 51 then result\<lparr>MagicCoffee := bean\<rparr> else result)
               \<lparr>Total := to_int64 (Total result + v)\<rparr>) rows)"
proof (cases "price_int price")
  case (Inl e)
  then have "leading_int price = None" using price_int_Inl_iff by blast
  with Inl show ?thesis by simp
next
  case (Inr v)
  then have "leading_int price = Some v" by (simp add: price_int_Inr_iff)
  with Inr show ?thesis by simp
qed

lemma pg_step:
  "DDDPostgresRows_loop i result (pg_row_of (idv, name, price) # rows) =
     (case leading_int price of
        None \<Rightarrow>
          DDDPostgresRows_loop i (if i = 50 then result\<lparr>MagicCoffee := name\<rparr> else result) rows
      | Some v \<Rightarrow>
          DDDPostgresRows_loop (i + 1)
            ((if i = 50 then result\<lparr>MagicCoffee := name\<rparr> else result)
               \<lparr>Total := to_int64 (Total result + v)\<rparr>) rows)"
proof (cases "price_int price")
  case (Inl e)
  then have "leading_int price = None" using price_int_Inl_iff by blast
  with Inl show ?thesis by (simp add: pg_row_of_def string_at_def)
next
  case (Inr v)
  then have "leading_int price = Some v" by (simp add: price_int_Inr_iff)
  with Inr show ?thesis by (simp add: pg_row_of_def string_at_def)
qed

lemma price_ok_iff: "price_ok price \<longleftrightarrow> leading_int price \<noteq> None"
  using price_int_Inl_iff [of price]
  by (cases "price_int price") (auto simp: price_ok_def)

section \<open>Worlds and rows used as examples\<close>

text \<open>An environment that configures the MySQL backend completely.\<close>

definition demo_env :: env where
  "demo_env =
     [''DB_USER'' \<mapsto> ''barista'', ''DB_PASS'' \<mapsto> ''s3cret'', ''DB_NAME'' \<mapsto> ''cymbal'',
      ''DB_REGION'' \<mapsto> ''europe-west1'', ''DB_INSTANCE'' \<mapsto> ''coffee-1'',
      ''DB_TYPE'' \<mapsto> ''CLOUD_SQL_MYSQL'']"

text \<open>A world in which every outside call succeeds and the table has no rows.\<close>

definition quiet_world :: world where
  "quiet_world =
     \<lparr>cfg_ProjectID = ''cymbal-proj'', bondCfg_BondURL = defaultBondURL,
      pgxpool_ParseConfig = (\<lambda>dsn. None), alloydbconn_NewDialer = None,
      cloudsqlconn_NewDialer = None, pgxpool_ConnectConfig = (\<lambda>target. None),
      pool_Query = Inr [], sql_Open = (\<lambda>dsn. None), db_Query = Inr [],
      http_NewRequest = (\<lambda>url. None),
      client_Do = Inr \<lparr>StatusCode = 200, Body = ''ok'', ReadErr = None\<rparr>\<rparr>"

text \<open>A world whose table holds one row with id 51 and a price that does not convert.\<close>

definition unpriced_world :: world where
  "unpriced_world = quiet_world\<lparr>db_Query := Inr [Inr (51, ''Ethiopian'', ''n/a'')]\<rparr>"

text \<open>The same row with a price that converts.\<close>

definition priced_world :: world where
  "priced_world = quiet_world\<lparr>db_Query := Inr [Inr (51, ''Ethiopian'', ''4.50'')]\<rparr>"

text \<open>Rows of the house blend: any number of them, all alike, with a price that converts.\<close>

definition house_rows :: "nat \<Rightarrow> (go_value \<times> string \<times> string) list" where
  "house_rows n = replicate n (GoInt 1, ''House'', ''3.00'')"

section \<open>Price parsing (C2)\<close>

text \<open>
  C2, as the code has it. A row whose price has a leading integer \<open>v\<close> (the text before
  the first \<^verbatim>\<open>.\<close> is an optionally signed decimal numeral that fits Go's 64-bit
  \<^verbatim>\<open>int\<close>) adds \<open>v\<close> to the running total, in 64-bit arithmetic, and the loop goes on
  with the next row; in the Postgres loop the counter advances. A row whose price has no
  such leading integer changes neither the total nor the counter, and the loop goes on
  with the next row. A price of the form \<^verbatim>\<open><digits>.<digits>\<close> has the leading integer its
  first run of digits denotes exactly when that number is below \<open>2^63\<close>. The sum is the
  exact one whenever it fits 64 bits.
\<close>

theorem price_contribution_or_skip:
  "(leading_int price = Some v \<longrightarrow>
      DDDMySQLConnect_loop result (Inr (i, bean, price) # rows) =
        DDDMySQLConnect_loop
          ((if i = 51 then result\<lparr>MagicCoffee := bean\<rparr> else result)
             \<lparr>Total := to_int64 (Total result + v)\<rparr>) rows \<and>
      DDDPostgresRows_loop n result (pg_row_of (idv, bean, price) # pgrows) =
        DDDPostgresRows_loop (n + 1)
          ((if n = 50 then result\<lparr>MagicCoffee := bean\<rparr> else result)
             \<lparr>Total := to_int64 (Total result + v)\<rparr>) pgrows) \<and>
   (leading_int price = None \<longrightarrow>
      DDDMySQLConnect_loop result (Inr (i, bean, price) # rows) =
        DDDMySQLConnect_loop (if i = 51 then result\<lparr>MagicCoffee := bean\<rparr> else result) rows \<and>
      DDDPostgresRows_loop n result (pg_row_of (idv, bean, price) # pgrows) =
        DDDPostgresRows_loop n (if n = 50 then result\<lparr>MagicCoffee := bean\<rparr> else result)
          pgrows) \<and>
   (ds \<noteq> [] \<and> list_all is_digit ds \<and> list_all is_digit fs \<longrightarrow>
      leading_int (ds @ ''.'' @ fs) =
        (if dec_val ds < 2 ^ 63 then Some (int (dec_val ds)) else None)) \<and>
   (- (2 ^ 63) \<le> Total result + v \<and> Total result + v < 2 ^ 63 \<longrightarrow>
      to_int64 (Total result + v) = Total result + v)"
proof -
  have a: "leading_int price = Some v \<longrightarrow>
      DDDMySQLConnect_loop result (Inr (i, bean, price) # rows) =
        DDDMySQLConnect_loop
          ((if i = 51 then result\<lparr>MagicCoffee := bean\<rparr> else result)
             \<lparr>Total := to_int64 (Total result + v)\<rparr>) rows"
    by (simp add: mysql_step del: DDDMySQLConnect_loop.simps)
  have b: "leading_int price = Some v \<longrightarrow>
      DDDPostgresRows_loop n result (pg_row_of (idv, bean, price) # pgrows) =
        DDDPostgresRows_loop (n + 1)
          ((if n = 50 then result\<lparr>MagicCoffee := bean\<rparr> else result)
             \<lparr>Total := to_int64 (Total result + v)\<rparr>) pgrows"
    by (simp add: pg_step del: DDDPostgresRows_loop.simps)
  have c: "leading_int price = None \<longrightarrow>
      DDDMySQLConnect_loop result (Inr (i, bean, price) # rows) =
        DDDMySQLConnect_loop (if i = 51 then result\<lparr>MagicCoffee := bean\<rparr> else result) rows"
    by (simp add: mysql_step del: DDDMySQLConnect_loop.simps)
  have d: "leading_int price = None \<longrightarrow>
      DDDPostgresRows_loop n result (pg_row_of (idv, bean, price) # pgrows) =
        DDDPostgresRows_loop n (if n = 50 then result\<lparr>MagicCoffee := bean\<rparr> else result)
          pgrows"
    by (simp add: pg_step del: DDDPostgresRows_loop.simps)
  have e: "ds \<noteq> [] \<and> list_all is_digit ds \<and> list_all is_digit fs \<longrightarrow>
      leading_int (ds @ ''.'' @ fs) =
        (if dec_val ds < 2 ^ 63 then Some (int (dec_val ds)) else None)"
    using leading_int_digits [of ds fs] by simp
  have f: "- (2 ^ 63) \<le> Total result + v \<and> Total result + v < 2 ^ 63 \<longrightarrow>
      to_int64 (Total result + v) = Total result + v"
    by (simp add: to_int64_id)
  from a b c d e f show ?thesis by blast
qed

theorem price_contribution_or_skip_witness:
  "leading_int ''4.50'' = Some 4 \<and>
   DDDMySQLConnect_loop zero_payload [Inr (51, ''Ethiopian'', ''4.50'')] =
     (zero_payload\<lparr>MagicCoffee := ''Ethiopian'', Total := 4\<rparr>, None) \<and>
   DDDPostgresRows_loop 50 zero_payload [pg_row_of (GoInt 51, ''Ethiopian'', ''4.50'')] =
     Inr (zero_payload\<lparr>MagicCoffee := ''Ethiopian'', Total := 4\<rparr>, None) \<and>
   leading_int ''n/a'' = None \<and>
   DDDMySQLConnect_loop zero_payload [Inr (7, ''Decaf'', ''n/a'')] = (zero_payload, None) \<and>
   DDDPostgresRows_loop 7 zero_payload [pg_row_of (GoInt 7, ''Decaf'', ''n/a'')] =
     Inr (zero_payload, None)"
  using price_contribution_or_skip [where price = "''4.50''" and v = 4 and result = zero_payload
      and i = 51 and bean = "''Ethiopian''" and rows = "[]" and n = 50 and idv = "GoInt 51"
      and pgrows = "[]" and ds = "''4''" and fs = "''50''"]
    price_contribution_or_skip [where price = "''n/a''" and v = 0 and result = zero_payload
      and i = 7 and bean = "''Decaf''" and rows = "[]" and n = 7 and idv = "GoInt 7"
      and pgrows = "[]" and ds = "''4''" and fs = "''50''"]
  by (simp add: leading_int_def spec_int_literal_def dec_val_def is_digit_def digit_val_def
      zero_payload_def to_int64_def)

text \<open>
  The claim as first worded (every price \<^verbatim>\<open><int>.<digits>\<close> contributes \<^verbatim>\<open><int>\<close>) fails
  for a numeral beyond the range of \<^verbatim>\<open>int\<close>: the conversion reports a range error and the
  row is skipped.
\<close>

theorem huge_price_is_skipped:
  "list_all is_digit ''9223372036854775808'' \<and> list_all is_digit ''00'' \<and>
   int (dec_val ''9223372036854775808'') = 9223372036854775808 \<and>
   Total (fst (DDDMySQLConnect_loop zero_payload
                 [Inr (1, ''Kona'', ''9223372036854775808.00'')])) = 0"
  by (simp add: price_int_def Atoi_def ParseInt_def ParseUint_def is_digit_def digit_val_def
      dec_val_def maxUint64_def zero_payload_def)

section \<open>The empty result set (C6)\<close>

text \<open>
  C6. With no rows, both loops return the zero payload (empty sentinel, total 0) and no
  error; so does \<^verbatim>\<open>DDDPostgresRows\<close> when the query returns no rows, and
  \<^verbatim>\<open>DDDMySQLConnect\<close> when the configuration is complete, the handle opens and the query
  returns no rows.
\<close>

theorem empty_result_set:
  "DDDPostgresRows_loop 0 zero_payload [] = Inr (zero_payload, None) \<and>
   DDDMySQLConnect_loop zero_payload [] = (zero_payload, None) \<and>
   MagicCoffee zero_payload = [] \<and> Total zero_payload = 0 \<and>
   (pool_Query w = Inr [] \<longrightarrow> snd (DDDPostgresRows w) = Inr (zero_payload, None)) \<and>
   (snd (dbConnectionInfo e (cfg_ProjectID w)) = None \<and> (\<forall>dsn. sql_Open w dsn = None) \<and>
    db_Query w = Inr [] \<longrightarrow>
      snd (DDDMySQLConnect e w) = Inr (zero_payload, None))"
proof -
  have pg: "pool_Query w = Inr [] \<longrightarrow> snd (DDDPostgresRows w) = Inr (zero_payload, None)"
    by (simp add: DDDPostgresRows_def)
  have my: "snd (dbConnectionInfo e (cfg_ProjectID w)) = None \<and>
      (\<forall>dsn. sql_Open w dsn = None) \<and> db_Query w = Inr [] \<longrightarrow>
      snd (DDDMySQLConnect e w) = Inr (zero_payload, None)"
    by (cases "dbConnectionInfo e (cfg_ProjectID w)") (auto simp: DDDMySQLConnect_def Let_def)
  have z: "MagicCoffee zero_payload = [] \<and> Total zero_payload = 0"
    by (simp add: zero_payload_def)
  from pg my z show ?thesis by simp
qed

theorem empty_result_set_witness:
  "pool_Query quiet_world = Inr [] \<and>
   snd (DDDPostgresRows quiet_world) = Inr (zero_payload, None) \<and>
   snd (dbConnectionInfo demo_env (cfg_ProjectID quiet_world)) = None \<and>
   db_Query quiet_world = Inr [] \<and>
   snd (DDDMySQLConnect demo_env quiet_world) = Inr (zero_payload, None)"
  using empty_result_set [of quiet_world demo_env]
  by (simp add: quiet_world_def demo_env_def dbConnectionInfo_def Getenv_def)

section \<open>The MySQL sentinel (C9)\<close>

text \<open>Over rows that all scan, the MySQL loop returns no error.\<close>

lemma mysql_no_error: "snd (DDDMySQLConnect_loop result (map Inr rs)) = None"
proof (induction rs arbitrary: result)
  case Nil
  show ?case by simp
next
  case (Cons r rs)
  obtain i bean price where r: "r = (i, bean, price)" by (cases r) auto
  show ?case
    unfolding r list.map mysql_step
    by (cases "leading_int price") (simp_all add: Cons.IH)
qed

lemma mysql_sentinel:
  "MagicCoffee (fst (DDDMySQLConnect_loop result (map Inr rs))) =
     (if filter (\<lambda>r. fst r = 51) rs = [] then MagicCoffee result
      else fst (snd (last (filter (\<lambda>r. fst r = 51) rs))))"
proof (induction rs arbitrary: result)
  case Nil
  show ?case by simp
next
  case (Cons r rs)
  obtain i bean price where r: "r = (i, bean, price)" by (cases r) auto
  show ?case
    unfolding r list.map mysql_step
    by (cases "leading_int price") (auto simp: Cons.IH)
qed

text \<open>What a scan error does: the loop stops there and returns what it has so far.\<close>

lemma mysql_loop_scanned:
  "DDDMySQLConnect_loop result rows =
     (fst (DDDMySQLConnect_loop result (map Inr (scanned rows))), scan_error rows)"
proof (induction rows arbitrary: result)
  case Nil
  show ?case by simp
next
  case (Cons r rows)
  show ?case
  proof (cases r)
    case (Inl err)
    then show ?thesis by simp
  next
    case (Inr t)
    obtain i bean price where t: "t = (i, bean, price)" by (cases t) auto
    show ?thesis
      unfolding Inr t scanned.simps scan_error.simps list.map mysql_step
      by (cases "leading_int price") (simp_all add: Cons.IH [symmetric])
  qed
qed

text \<open>
  C9. In the MySQL loop the variable compared with 51 is the first scanned column of the
  row, and the loop keeps no count of rows. The sentinel is the name of the last scanned
  row whose first column is 51, and stays what it was when no scanned row has that id:
  the positions of the rows play no part. In particular a row with id 51 after any rows
  whatever, and followed only by rows with other ids, sets the sentinel to its name. The
  error returned is the first scan error, if any.
\<close>

theorem mysql_sentinel_by_id:
  "snd (DDDMySQLConnect_loop result rows) = scan_error rows \<and>
   MagicCoffee (fst (DDDMySQLConnect_loop result rows)) =
     (if filter (\<lambda>r. fst r = 51) (scanned rows) = [] then MagicCoffee result
      else fst (snd (last (filter (\<lambda>r. fst r = 51) (scanned rows))))) \<and>
   ((\<forall>r \<in> set post. fst r \<noteq> 51) \<longrightarrow>
      snd (DDDMySQLConnect_loop result (map Inr (pre @ (51, bean, price) # post))) = None \<and>
      MagicCoffee (fst (DDDMySQLConnect_loop result
                          (map Inr (pre @ (51, bean, price) # post)))) = bean)"
proof -
  have a: "snd (DDDMySQLConnect_loop result rows) = scan_error rows"
    by (subst mysql_loop_scanned) simp
  have b: "MagicCoffee (fst (DDDMySQLConnect_loop result rows)) =
     (if filter (\<lambda>r. fst r = 51) (scanned rows) = [] then MagicCoffee result
      else fst (snd (last (filter (\<lambda>r. fst r = 51) (scanned rows)))))"
    by (subst mysql_loop_scanned) (simp add: mysql_sentinel)
  have c: "(\<forall>r \<in> set post. fst r \<noteq> 51) \<longrightarrow>
      MagicCoffee (fst (DDDMySQLConnect_loop result
                          (map Inr (pre @ (51, bean, price) # post)))) = bean"
  proof
    assume "\<forall>r \<in> set post. fst r \<noteq> 51"
    then have "filter (\<lambda>r. fst r = 51) post = []" by (simp add: filter_empty_conv)
    then show "MagicCoffee (fst (DDDMySQLConnect_loop result
                          (map Inr (pre @ (51, bean, price) # post)))) = bean"
      unfolding mysql_sentinel by simp
  qed
  have d: "snd (DDDMySQLConnect_loop result (map Inr (pre @ (51, bean, price) # post))) = None"
    by (rule mysql_no_error)
  from a b c d show ?thesis by blast
qed

theorem mysql_sentinel_by_id_witness:
  "MagicCoffee (fst (DDDMySQLConnect_loop zero_payload
      (map Inr ([(51, ''Stale'', ''2.00''), (9, ''House'', ''3.00'')] @
                (51, ''Ethiopian'', ''4.50'') # [(52, ''Kona'', ''5.00'')])))) = ''Ethiopian'' \<and>
   snd (DDDMySQLConnect_loop zero_payload
      (map Inr ([(51, ''Stale'', ''2.00''), (9, ''House'', ''3.00'')] @
                (51, ''Ethiopian'', ''4.50'') # [(52, ''Kona'', ''5.00'')]))) = None \<and>
   MagicCoffee (fst (DDDMySQLConnect_loop zero_payload
     [Inr (51, ''Ethiopian'', ''n/a''), Inl (ErrLib ''converting NULL to string''),
      Inr (51, ''Kona'', ''5.00'')])) = ''Ethiopian'' \<and>
   snd (DDDMySQLConnect_loop zero_payload
     [Inr (51, ''Ethiopian'', ''n/a''), Inl (ErrLib ''converting NULL to string''),
      Inr (51, ''Kona'', ''5.00'')]) = Some (ErrLib ''converting NULL to string'')"
  using mysql_sentinel_by_id [where result = zero_payload
      and pre = "[(51, ''Stale'', ''2.00''), (9, ''House'', ''3.00'')]"
      and bean = "''Ethiopian''" and price = "''4.50''" and post = "[(52, ''Kona'', ''5.00'')]"
      and rows = "[Inr (51, ''Ethiopian'', ''n/a''), Inl (ErrLib ''converting NULL to string''),
      Inr (51, ''Kona'', ''5.00'')]"]
  by (simp del: DDDMySQLConnect_loop.simps)

section \<open>The configuration resolver (C7)\<close>

text \<open>
  C7. \<^verbatim>\<open>dbConnectionInfo\<close> returns no error exactly when user, password, database name
  and instance are all non-empty in the environment; otherwise it returns the one error
  \<^verbatim>\<open>ensure required environment variables are set\<close>, whichever of the four is missing.
  On success the fields are the environment's values, and the project identifier is the
  process-wide default whenever \<^verbatim>\<open>DB_PROJECT\<close> is unset (or empty).
\<close>

theorem dbConnectionInfo_contract:
  "(snd (dbConnectionInfo e p) = None \<longleftrightarrow>
      Getenv e ''DB_USER'' \<noteq> [] \<and> Getenv e ''DB_PASS'' \<noteq> [] \<and>
      Getenv e ''DB_NAME'' \<noteq> [] \<and> Getenv e ''DB_INSTANCE'' \<noteq> []) \<and>
   (snd (dbConnectionInfo e p) \<noteq> None \<longrightarrow>
      dbConnectionInfo e p = (zero_info, Some ErrEnvNotSet)) \<and>
   (snd (dbConnectionInfo e p) = None \<longrightarrow>
      fst (dbConnectionInfo e p) =
        \<lparr>User = Getenv e ''DB_USER'', Pass = Getenv e ''DB_PASS'',
         DBName = Getenv e ''DB_NAME'', DBRegion = Getenv e ''DB_REGION'',
         DBCluster = Getenv e ''DB_CLUSTER'', DBInstance = Getenv e ''DB_INSTANCE'',
         ProjectID = (if Getenv e ''DB_PROJECT'' = [] then p else Getenv e ''DB_PROJECT'')\<rparr>) \<and>
   (snd (dbConnectionInfo e p) = None \<and> e ''DB_PROJECT'' = None \<longrightarrow>
      ProjectID (fst (dbConnectionInfo e p)) = p)"
  by (auto simp: dbConnectionInfo_def Let_def Getenv_def)

theorem dbConnectionInfo_contract_witness:
  "snd (dbConnectionInfo demo_env ''cymbal-proj'') = None \<and>
   demo_env ''DB_PROJECT'' = None \<and>
   ProjectID (fst (dbConnectionInfo demo_env ''cymbal-proj'')) = ''cymbal-proj'' \<and>
   User (fst (dbConnectionInfo demo_env ''cymbal-proj'')) = ''barista'' \<and>
   dbConnectionInfo (demo_env(''DB_PASS'' := None)) ''cymbal-proj'' =
     (zero_info, Some ErrEnvNotSet)"
  using dbConnectionInfo_contract [of demo_env "''cymbal-proj''"]
    dbConnectionInfo_contract [of "demo_env(''DB_PASS'' := None)" "''cymbal-proj''"]
  by (simp add: demo_env_def Getenv_def)

section \<open>An unrecognised backend kind (C3)\<close>

text \<open>
  C3. When \<^verbatim>\<open>DB_TYPE\<close> is none of \<^verbatim>\<open>ALLOY_DB\<close>, \<^verbatim>\<open>CLOUD_SQL_POSTGRES\<close> and
  \<^verbatim>\<open>CLOUD_SQL_MYSQL\<close>, the handler answers 500 with the text
  \<^verbatim>\<open>Error: Unknown DB type ...\<close>, does not panic, and the only thing it does besides is
  write one log line: no dialer, pool, handle or query is ever touched, whatever the
  world.
\<close>

theorem unknown_db_type:
  "Getenv e ''DB_TYPE'' \<noteq> ''ALLOY_DB'' \<Longrightarrow>
   Getenv e ''DB_TYPE'' \<noteq> ''CLOUD_SQL_POSTGRES'' \<Longrightarrow>
   Getenv e ''DB_TYPE'' \<noteq> ''CLOUD_SQL_MYSQL'' \<Longrightarrow>
   dddHandler e w =
     ([LogUnknownDBType (Getenv e ''DB_TYPE'')],
      Responded 500
        (PlainText (''Error: Unknown DB type '' @ Getenv e ''DB_TYPE'' @ [CHR 0x0A]))) \<and>
   \<not> list_ex is_db_event (fst (dddHandler e w))"
  by (simp add: dddHandler_def Let_def http_Error_def StatusInternalServerError_def)

theorem unknown_db_type_witness:
  "Getenv (demo_env(''DB_TYPE'' \<mapsto> ''SPANNER'')) ''DB_TYPE'' = ''SPANNER'' \<and>
   dddHandler (demo_env(''DB_TYPE'' \<mapsto> ''SPANNER'')) quiet_world =
     ([LogUnknownDBType ''SPANNER''],
      Responded 500 (PlainText (''Error: Unknown DB type SPANNER'' @ [CHR 0x0A]))) \<and>
   snd (dddHandler (demo_env(''DB_TYPE'' := None)) quiet_world) =
     Responded 500 (PlainText (''Error: Unknown DB type '' @ [CHR 0x0A]))"
  using unknown_db_type [of "demo_env(''DB_TYPE'' \<mapsto> ''SPANNER'')" quiet_world]
    unknown_db_type [of "demo_env(''DB_TYPE'' := None)" quiet_world]
  by (simp add: Getenv_def)

section \<open>The cluster identifier of the AlloyDB builder (C4)\<close>

text \<open>What a complete environment resolves to.\<close>

definition env_info :: "env \<Rightarrow> string \<Rightarrow> DBConnectionInfo" where
  "env_info e p =
     \<lparr>User = Getenv e ''DB_USER'', Pass = Getenv e ''DB_PASS'',
      DBName = Getenv e ''DB_NAME'', DBRegion = Getenv e ''DB_REGION'',
      DBCluster = Getenv e ''DB_CLUSTER'', DBInstance = Getenv e ''DB_INSTANCE'',
      ProjectID = (if Getenv e ''DB_PROJECT'' = [] then p else Getenv e ''DB_PROJECT'')\<rparr>"

lemma dbConnectionInfo_ok:
  "Getenv e ''DB_USER'' \<noteq> [] \<Longrightarrow> Getenv e ''DB_PASS'' \<noteq> [] \<Longrightarrow>
   Getenv e ''DB_NAME'' \<noteq> [] \<Longrightarrow> Getenv e ''DB_INSTANCE'' \<noteq> [] \<Longrightarrow>
   dbConnectionInfo e p = (env_info e p, None)"
  by (simp add: dbConnectionInfo_def Let_def env_info_def)

lemma DDDPostgresConnection_ok:
  assumes "Getenv e ''DB_USER'' \<noteq> []" "Getenv e ''DB_PASS'' \<noteq> []"
    "Getenv e ''DB_NAME'' \<noteq> []" "Getenv e ''DB_INSTANCE'' \<noteq> []"
  shows "DDDPostgresConnection e w =
     (case pgxpool_ParseConfig w (postgres_dsn (env_info e (cfg_ProjectID w))) of
        Some err \<Rightarrow> (None, Some err)
      | None \<Rightarrow> (Some (postgres_dsn (env_info e (cfg_ProjectID w))), None))"
  by (simp add: DDDPostgresConnection_def dbConnectionInfo_ok [OF assms] Let_def)

text \<open>
  C4, as the code has it. With a complete configuration whose \<^verbatim>\<open>DB_CLUSTER\<close> is empty,
  \<^verbatim>\<open>DDDAlloyConnect\<close> always returns an error and never reaches the pool, the handle or a
  query. The error is \<^verbatim>\<open>expected db cluster to be set\<close> (a text no other error of the
  service has), surfaced by the handler as a 500 response, whenever the two steps that
  come before the check succeed: parsing the pool configuration and creating the
  connector's dialer.
\<close>

theorem cluster_required:
  assumes "Getenv e ''DB_USER'' \<noteq> []" "Getenv e ''DB_PASS'' \<noteq> []"
    "Getenv e ''DB_NAME'' \<noteq> []" "Getenv e ''DB_INSTANCE'' \<noteq> []"
    and "Getenv e ''DB_CLUSTER'' = []"
  shows "(pgxpool_ParseConfig w (postgres_dsn (fst (dbConnectionInfo e (cfg_ProjectID w)))) = None \<and>
     alloydbconn_NewDialer w = None \<longrightarrow>
      DDDAlloyConnect e w = ([NewAlloyDBDialer], Inr (zero_payload, Some ErrClusterNotSet)) \<and>
      (Getenv e ''DB_TYPE'' = ''ALLOY_DB'' \<longrightarrow>
         dddHandler e w =
           ([NewAlloyDBDialer, LogError ErrClusterNotSet],
            Responded 500 (PlainText (''Error: expected db cluster to be set'' @ [CHR 0x0A]))))) \<and>
    (\<exists>err. snd (DDDAlloyConnect e w) = Inr (zero_payload, Some err)) \<and>
    \<not> list_ex is_connection_event (fst (DDDAlloyConnect e w)) \<and>
    Error_text ErrClusterNotSet \<noteq> Error_text ErrEnvNotSet \<and>
    Error_text ErrClusterNotSet \<noteq> Error_text ErrExpected200"
proof -
  note info = dbConnectionInfo_ok [OF assms(1-4)]
  note conn = DDDPostgresConnection_ok [OF assms(1-4)]
  have alloy: "DDDAlloyConnect e w =
      (case pgxpool_ParseConfig w (postgres_dsn (env_info e (cfg_ProjectID w))) of
         Some err \<Rightarrow> ([], Inr (zero_payload, Some err))
       | None \<Rightarrow>
           (case alloydbconn_NewDialer w of
              Some err \<Rightarrow> ([NewAlloyDBDialer], Inr (zero_payload, Some err))
            | None \<Rightarrow> ([NewAlloyDBDialer], Inr (zero_payload, Some ErrClusterNotSet))))"
    by (simp add: DDDAlloyConnect_def conn info assms(5) env_info_def split: option.splits)
  have a: "pgxpool_ParseConfig w (postgres_dsn (env_info e (cfg_ProjectID w))) = None \<and>
      alloydbconn_NewDialer w = None \<longrightarrow>
      DDDAlloyConnect e w = ([NewAlloyDBDialer], Inr (zero_payload, Some ErrClusterNotSet))"
    by (simp add: alloy)
  have b: "pgxpool_ParseConfig w (postgres_dsn (env_info e (cfg_ProjectID w))) = None \<and>
      alloydbconn_NewDialer w = None \<longrightarrow>
      Getenv e ''DB_TYPE'' = ''ALLOY_DB'' \<longrightarrow>
         dddHandler e w =
           ([NewAlloyDBDialer, LogError ErrClusterNotSet],
            Responded 500 (PlainText (''Error: expected db cluster to be set'' @ [CHR 0x0A])))"
    by (simp add: alloy dddHandler_def dddHandler_verify_def http_Error_def
        StatusInternalServerError_def)
  have c: "\<exists>err. snd (DDDAlloyConnect e w) = Inr (zero_payload, Some err)"
    by (simp add: alloy split: option.splits)
  have d: "\<not> list_ex is_connection_event (fst (DDDAlloyConnect e w))"
    by (simp add: alloy split: option.splits)
  have t: "Error_text ErrClusterNotSet \<noteq> Error_text ErrEnvNotSet \<and>
    Error_text ErrClusterNotSet \<noteq> Error_text ErrExpected200"
    by simp
  from a b c d t show ?thesis by (simp add: info)
qed

theorem cluster_required_witness:
  "Getenv (demo_env(''DB_TYPE'' \<mapsto> ''ALLOY_DB'')) ''DB_CLUSTER'' = [] \<and>
   DDDAlloyConnect (demo_env(''DB_TYPE'' \<mapsto> ''ALLOY_DB'')) quiet_world =
     ([NewAlloyDBDialer], Inr (zero_payload, Some ErrClusterNotSet)) \<and>
   dddHandler (demo_env(''DB_TYPE'' \<mapsto> ''ALLOY_DB'')) quiet_world =
     ([NewAlloyDBDialer, LogError ErrClusterNotSet],
      Responded 500 (PlainText (''Error: expected db cluster to be set'' @ [CHR 0x0A])))"
  using cluster_required [of "demo_env(''DB_TYPE'' \<mapsto> ''ALLOY_DB'')" quiet_world]
  by (simp add: demo_env_def Getenv_def quiet_world_def)

text \<open>
  The claim as first worded (every valid configuration without a cluster fails with the
  cluster error) does not hold when the dialer cannot be created: the builder returns the
  dialer's error before it looks at the cluster.
\<close>

theorem dialer_failure_hides_cluster_error:
  "Getenv demo_env ''DB_USER'' \<noteq> [] \<and> Getenv demo_env ''DB_PASS'' \<noteq> [] \<and>
   Getenv demo_env ''DB_NAME'' \<noteq> [] \<and> Getenv demo_env ''DB_INSTANCE'' \<noteq> [] \<and>
   Getenv demo_env ''DB_CLUSTER'' = [] \<and>
   DDDAlloyConnect demo_env
     (quiet_world\<lparr>alloydbconn_NewDialer := Some (ErrLib ''could not find default credentials'')\<rparr>) =
     ([NewAlloyDBDialer],
      Inr (zero_payload, Some (ErrLib ''could not find default credentials'')))"
  by (simp add: DDDAlloyConnect_def DDDPostgresConnection_def dbConnectionInfo_def Let_def
      demo_env_def Getenv_def quiet_world_def)

section \<open>A failing verification (C5)\<close>

lemma sendJson_not_2xx:
  "http_NewRequest w (bondCfg_BondURL w @ ep) = None \<Longrightarrow> client_Do w = Inr res \<Longrightarrow>
   StatusCode res < 200 \<or> 299 < StatusCode res \<Longrightarrow>
   sendJson w ep p = ([HttpPost (bondCfg_BondURL w @ ep) (json_Marshal p)], None, Some ErrExpected200)"
  by (simp add: sendJson_def Let_def)

lemma sendJson_transport:
  "http_NewRequest w (bondCfg_BondURL w @ ep) = None \<Longrightarrow> client_Do w = Inl err \<Longrightarrow>
   sendJson w ep p = ([HttpPost (bondCfg_BondURL w @ ep) (json_Marshal p)], None, Some err)"
  by (simp add: sendJson_def Let_def)

lemma sendJson_ok:
  "http_NewRequest w (bondCfg_BondURL w @ ep) = None \<Longrightarrow> client_Do w = Inr res \<Longrightarrow>
   200 \<le> StatusCode res \<Longrightarrow> StatusCode res \<le> 299 \<Longrightarrow> ReadErr res = None \<Longrightarrow>
   sendJson w ep p =
     ([HttpPost (bondCfg_BondURL w @ ep) (json_Marshal p)], Some (Body res), None)"
  by (simp add: sendJson_def Let_def)

text \<open>
  C5, what the code does. When the verification POST comes back with a status outside
  200-299, or fails in transport, \<^verbatim>\<open>sendJson\<close> returns the error together with a
  \<^verbatim>\<open>nil\<close> slice: the response body is never read. The handler then answers 500 with
  \<^verbatim>\<open>Data-Driven Decaf Error: ...\<close>, although aggregation had succeeded; its branch that
  logs the body (\<^verbatim>\<open>if res != nil\<close>) is not taken, so no \<open>LogBody\<close> event occurs.
\<close>

theorem verify_failure_loses_body:
  assumes "http_NewRequest w (bondCfg_BondURL w @ ''/v1/data_driven_decaf/verify'') = None"
  shows "(client_Do w = Inr res \<and> (StatusCode res < 200 \<or> 299 < StatusCode res) \<longrightarrow>
      sendJson w ''/v1/data_driven_decaf/verify'' p =
        ([HttpPost (bondCfg_BondURL w @ ''/v1/data_driven_decaf/verify'') (json_Marshal p)],
         None, Some ErrExpected200) \<and>
      dddHandler_verify e w (evs, Inr (result, None)) =
        (evs @ [LogResult (result\<lparr>Project := cfg_ProjectID w, DB := Getenv e ''DB_TYPE''\<rparr>),
                HttpPost (bondCfg_BondURL w @ ''/v1/data_driven_decaf/verify'')
                  (json_Marshal (result\<lparr>Project := cfg_ProjectID w,
                                         DB := Getenv e ''DB_TYPE''\<rparr>)),
                LogError ErrExpected200],
         Responded 500
           (PlainText (''Data-Driven Decaf Error: expected 200 response'' @ [CHR 0x0A])))) \<and>
    (client_Do w = Inl err \<longrightarrow>
      sendJson w ''/v1/data_driven_decaf/verify'' p =
        ([HttpPost (bondCfg_BondURL w @ ''/v1/data_driven_decaf/verify'') (json_Marshal p)],
         None, Some err) \<and>
      dddHandler_verify e w (evs, Inr (result, None)) =
        (evs @ [LogResult (result\<lparr>Project := cfg_ProjectID w, DB := Getenv e ''DB_TYPE''\<rparr>),
                HttpPost (bondCfg_BondURL w @ ''/v1/data_driven_decaf/verify'')
                  (json_Marshal (result\<lparr>Project := cfg_ProjectID w,
                                         DB := Getenv e ''DB_TYPE''\<rparr>)),
                LogError err],
         Responded 500
           (PlainText (''Data-Driven Decaf Error: '' @ Error_text err @ [CHR 0x0A]))))"
proof -
  have a: "client_Do w = Inr res \<and> (StatusCode res < 200 \<or> 299 < StatusCode res) \<longrightarrow>
      sendJson w ''/v1/data_driven_decaf/verify'' p =
        ([HttpPost (bondCfg_BondURL w @ ''/v1/data_driven_decaf/verify'') (json_Marshal p)],
         None, Some ErrExpected200)" for p
    using sendJson_not_2xx [OF assms] by blast
  have b: "client_Do w = Inl err \<longrightarrow>
      sendJson w ''/v1/data_driven_decaf/verify'' p =
        ([HttpPost (bondCfg_BondURL w @ ''/v1/data_driven_decaf/verify'') (json_Marshal p)],
         None, Some err)" for p
    using sendJson_transport [OF assms] by blast
  show ?thesis
    using a b
    by (simp add: dddHandler_verify_def Let_def http_Error_def StatusInternalServerError_def)
qed

theorem verify_503_loses_body:
  "dddHandler demo_env
     (quiet_world\<lparr>client_Do :=
        Inr \<lparr>StatusCode = 503, Body = ''upstream overloaded'', ReadErr = None\<rparr>\<rparr>) =
     ([SqlOpen ''barista:s3cret@cloudsql-mysql(cymbal-proj:europe-west1:coffee-1)/cymbal'',
       RunQuery ''select * from coffee'',
       LogResult \<lparr>MagicCoffee = [], Total = 0, Project = ''cymbal-proj'',
                  DB = ''CLOUD_SQL_MYSQL''\<rparr>,
       HttpPost ''https://bond-service-l5xebjflvq-ew.a.run.app/v1/data_driven_decaf/verify''
         [(''project'', JString ''cymbal-proj''), (''db'', JString ''CLOUD_SQL_MYSQL'')],
       LogError ErrExpected200],
      Responded 500
        (PlainText (''Data-Driven Decaf Error: expected 200 response'' @ [CHR 0x0A]))) \<and>
   snd (dddHandler demo_env
     (quiet_world\<lparr>client_Do := Inl (ErrLib ''dial tcp: connection refused'')\<rparr>)) =
     Responded 500
       (PlainText (''Data-Driven Decaf Error: dial tcp: connection refused'' @ [CHR 0x0A]))"
  using verify_failure_loses_body [where
      w = "quiet_world\<lparr>client_Do :=
        Inr \<lparr>StatusCode = 503, Body = ''upstream overloaded'', ReadErr = None\<rparr>\<rparr>"
      and res = "\<lparr>StatusCode = 503, Body = ''upstream overloaded'', ReadErr = None\<rparr>"
      and e = demo_env and result = zero_payload
      and evs = "[SqlOpen ''barista:s3cret@cloudsql-mysql(cymbal-proj:europe-west1:coffee-1)/cymbal'',
       RunQuery ''select * from coffee'']"]
    verify_failure_loses_body [where
      w = "quiet_world\<lparr>client_Do := Inl (ErrLib ''dial tcp: connection refused'')\<rparr>"
      and err = "ErrLib ''dial tcp: connection refused''"
      and e = demo_env and result = zero_payload
      and evs = "[SqlOpen ''barista:s3cret@cloudsql-mysql(cymbal-proj:europe-west1:coffee-1)/cymbal'',
       RunQuery ''select * from coffee'']"]
  by (simp add: dddHandler_def DDDMySQLConnect_def dbConnectionInfo_def mysql_dsn_def Let_def
      demo_env_def Getenv_def quiet_world_def defaultQuery_def defaultBondURL_def
      zero_payload_def json_Marshal_def)

section \<open>The Postgres counter and sentinel\<close>

text \<open>Counting the rows of a prefix whose price converts.\<close>

lemma parsed_before_0: "parsed_before rs 0 = 0"
  by (simp add: parsed_before_def)

lemma parsed_before_Cons_Suc:
  "parsed_before (r # rs) (Suc j) =
     (if price_ok (snd (snd r)) then 1 else 0) + parsed_before rs j"
  by (simp add: parsed_before_def)

lemma parsed_before_Suc:
  "j < length rs \<Longrightarrow>
   parsed_before rs (Suc j) =
     parsed_before rs j + (if price_ok (snd (snd (rs ! j))) then 1 else 0)"
  by (simp add: parsed_before_def take_Suc_conv_app_nth)

lemma parsed_before_all:
  "j \<le> length rs \<Longrightarrow> (\<forall>k<j. price_ok (snd (snd (rs ! k)))) \<Longrightarrow> parsed_before rs j = j"
  by (induction j) (simp_all add: parsed_before_0 parsed_before_Suc)

lemma parsed_before_le: "j \<le> length rs \<Longrightarrow> parsed_before rs j \<le> j"
  by (induction j) (simp_all add: parsed_before_0 parsed_before_Suc)

lemma parsed_before_mono:
  "j \<le> k \<Longrightarrow> k \<le> length rs \<Longrightarrow> parsed_before rs j \<le> parsed_before rs k"
proof (induction k)
  case 0
  then show ?case by simp
next
  case (Suc k)
  show ?case
  proof (cases "j = Suc k")
    case True
    then show ?thesis by simp
  next
    case False
    with Suc.prems have "j \<le> k" "k < length rs" by simp_all
    with Suc.IH have "parsed_before rs j \<le> parsed_before rs k" by simp
    also have "\<dots> \<le> parsed_before rs (Suc k)"
      using \<open>k < length rs\<close> by (simp add: parsed_before_Suc)
    finally show ?thesis .
  qed
qed

lemma parsed_before_skip:
  assumes "k < j" "j \<le> length rs" "\<not> price_ok (snd (snd (rs ! k)))"
  shows "parsed_before rs j < j"
proof -
  have "parsed_before rs (Suc k) = parsed_before rs k"
    using assms by (simp add: parsed_before_Suc)
  also have "\<dots> \<le> k" using assms by (simp add: parsed_before_le)
  finally have a: "parsed_before rs (Suc k) < Suc k" by simp
  have "parsed_before rs j \<le> parsed_before rs (Suc k) + (j - Suc k)"
    using assms(1,2)
  proof (induction j)
    case 0
    then show ?case by simp
  next
    case (Suc j)
    show ?case
    proof (cases "k = j")
      case True
      then show ?thesis by simp
    next
      case False
      with Suc.prems have kj: "k < j" "j \<le> length rs" "j < length rs" by simp_all
      from Suc.IH [OF kj(1,2)]
      have "parsed_before rs j \<le> parsed_before rs (Suc k) + (j - Suc k)" .
      moreover have "parsed_before rs (Suc j) \<le> parsed_before rs j + 1"
        using kj(3) by (simp add: parsed_before_Suc)
      moreover have "Suc j - Suc k = Suc (j - Suc k)" using kj(1) by simp
      ultimately show ?thesis by simp
    qed
  qed
  with a assms(1) show ?thesis by simp
qed

text \<open>
  The Postgres loop over rows of the three-column table returns without error, and its
  sentinel is settled by the counter alone: a row is captured exactly when the number of
  rows before it whose price converted, added to the starting counter, is 50, and the
  last captured row wins. When no row is captured the sentinel is left as it was.
\<close>

lemma pg_loop_sentinel:
  "\<exists>res'. DDDPostgresRows_loop i res (map pg_row_of rs) = Inr (res', None) \<and>
     ((MagicCoffee res' = MagicCoffee res \<and> (\<forall>j<length rs. i + parsed_before rs j \<noteq> 50)) \<or>
      (\<exists>j<length rs. i + parsed_before rs j = 50 \<and> MagicCoffee res' = fst (snd (rs ! j)) \<and>
          (\<forall>j'<length rs. j < j' \<longrightarrow> i + parsed_before rs j' \<noteq> 50)))"
proof (induction rs arbitrary: i res)
  case Nil
  show ?case by simp
next
  case (Cons r rs)
  obtain idv name price where r: "r = (idv, name, price)" by (cases r) auto
  define d :: nat where "d = (if price_ok price then 1 else 0)"
  define res1 where "res1 = (if i = 50 then res\<lparr>MagicCoffee := name\<rparr> else res)"
  have pb: "parsed_before (r # rs) (Suc j) = d + parsed_before rs j" for j
    by (simp add: parsed_before_Cons_Suc r d_def)
  obtain res2 where
    step: "DDDPostgresRows_loop i res (map pg_row_of (r # rs)) =
             DDDPostgresRows_loop (i + d) res2 (map pg_row_of rs)"
    and mc: "MagicCoffee res2 = MagicCoffee res1"
  proof (cases "leading_int price")
    case None
    then have "d = 0" by (simp add: d_def price_ok_iff)
    with None have "DDDPostgresRows_loop i res (map pg_row_of (r # rs)) =
             DDDPostgresRows_loop (i + d) res1 (map pg_row_of rs)"
      unfolding r list.map pg_step res1_def by simp
    then show ?thesis using that by blast
  next
    case (Some v)
    then have "d = 1" by (simp add: d_def price_ok_iff)
    with Some have "DDDPostgresRows_loop i res (map pg_row_of (r # rs)) =
             DDDPostgresRows_loop (i + d)
               (res1\<lparr>Total := to_int64 (Total res + v)\<rparr>) (map pg_row_of rs)"
      unfolding r list.map pg_step res1_def by simp
    then show ?thesis using that [of "res1\<lparr>Total := to_int64 (Total res + v)\<rparr>"] by simp
  qed
  from Cons.IH [of "i + d" res2] obtain res' where
    run: "DDDPostgresRows_loop (i + d) res2 (map pg_row_of rs) = Inr (res', None)"
    and alt: "(MagicCoffee res' = MagicCoffee res2 \<and>
                (\<forall>j<length rs. i + d + parsed_before rs j \<noteq> 50)) \<or>
              (\<exists>j<length rs. i + d + parsed_before rs j = 50 \<and>
                 MagicCoffee res' = fst (snd (rs ! j)) \<and>
                 (\<forall>j'<length rs. j < j' \<longrightarrow> i + d + parsed_before rs j' \<noteq> 50))"
    by blast
  have "(MagicCoffee res' = MagicCoffee res \<and>
          (\<forall>j<length (r # rs). i + parsed_before (r # rs) j \<noteq> 50)) \<or>
        (\<exists>j<length (r # rs). i + parsed_before (r # rs) j = 50 \<and>
           MagicCoffee res' = fst (snd ((r # rs) ! j)) \<and>
           (\<forall>j'<length (r # rs). j < j' \<longrightarrow> i + parsed_before (r # rs) j' \<noteq> 50))"
    using alt
  proof (elim disjE conjE exE)
    assume keep: "MagicCoffee res' = MagicCoffee res2"
      and none: "\<forall>j<length rs. i + d + parsed_before rs j \<noteq> 50"
    show ?thesis
    proof (cases "i = 50")
      case True
      have "0 < length (r # rs)" by simp
      moreover have "i + parsed_before (r # rs) 0 = 50"
        using True by (simp add: parsed_before_0)
      moreover have "MagicCoffee res' = fst (snd ((r # rs) ! 0))"
        using keep mc True by (simp add: res1_def r)
      moreover have "\<forall>j'<length (r # rs). 0 < j' \<longrightarrow> i + parsed_before (r # rs) j' \<noteq> 50"
      proof (intro allI impI)
        fix j' assume "j' < length (r # rs)" "0 < j'"
        then obtain m where "j' = Suc m" "m < length rs" by (cases j') auto
        with none show "i + parsed_before (r # rs) j' \<noteq> 50" by (simp add: pb add.assoc)
      qed
      ultimately show ?thesis by blast
    next
      case False
      have "MagicCoffee res' = MagicCoffee res"
        using keep mc False by (simp add: res1_def)
      moreover have "\<forall>j<length (r # rs). i + parsed_before (r # rs) j \<noteq> 50"
      proof (intro allI impI)
        fix j assume j: "j < length (r # rs)"
        show "i + parsed_before (r # rs) j \<noteq> 50"
        proof (cases j)
          case 0
          with False show ?thesis by (simp add: parsed_before_0)
        next
          case (Suc m)
          with j none show ?thesis by (simp add: pb add.assoc)
        qed
      qed
      ultimately show ?thesis by blast
    qed
  next
    fix j
    assume j: "j < length rs" and hit: "i + d + parsed_before rs j = 50"
      and name: "MagicCoffee res' = fst (snd (rs ! j))"
      and later: "\<forall>j'<length rs. j < j' \<longrightarrow> i + d + parsed_before rs j' \<noteq> 50"
    have "Suc j < length (r # rs)" using j by simp
    moreover have "i + parsed_before (r # rs) (Suc j) = 50"
      using hit by (simp add: pb add.assoc)
    moreover have "MagicCoffee res' = fst (snd ((r # rs) ! Suc j))"
      using name by simp
    moreover have "\<forall>j'<length (r # rs). Suc j < j' \<longrightarrow> i + parsed_before (r # rs) j' \<noteq> 50"
    proof (intro allI impI)
      fix j' assume "j' < length (r # rs)" "Suc j < j'"
      then obtain m where "j' = Suc m" "m < length rs" "j < m" by (cases j') auto
      with later show "i + parsed_before (r # rs) j' \<noteq> 50" by (simp add: pb add.assoc)
    qed
    ultimately show ?thesis by blast
  qed
  with step run show ?case by simp
qed

lemma pg_loop_parsed_prefix:
  "(\<forall>r \<in> set xs. price_ok (snd (snd r))) \<Longrightarrow> i + length xs \<le> 50 \<Longrightarrow>
   \<exists>T. DDDPostgresRows_loop i res (map pg_row_of xs @ rest) =
        DDDPostgresRows_loop (i + length xs) (res\<lparr>Total := T\<rparr>) rest"
proof (induction xs arbitrary: i res)
  case Nil
  have "res = res\<lparr>Total := Total res\<rparr>" by simp
  then show ?case by (metis add.right_neutral append_Nil list.map(1) list.size(3))
next
  case (Cons r xs)
  obtain idv name price where r: "r = (idv, name, price)" by (cases r) auto
  from Cons.prems obtain v where v: "leading_int price = Some v"
    by (auto simp: r price_ok_iff)
  from Cons.prems have i: "i \<noteq> 50" "Suc i + length xs \<le> 50" by simp_all
  from Cons.prems have "\<forall>r \<in> set xs. price_ok (snd (snd r))" by simp
  from Cons.IH [OF this i(2), of "res\<lparr>Total := to_int64 (Total res + v)\<rparr>"]
  obtain T where
    "DDDPostgresRows_loop (Suc i) (res\<lparr>Total := to_int64 (Total res + v)\<rparr>)
       (map pg_row_of xs @ rest) =
     DDDPostgresRows_loop (Suc i + length xs) (res\<lparr>Total := T\<rparr>) rest"
    by auto
  then have "DDDPostgresRows_loop i res (map pg_row_of (r # xs) @ rest) =
     DDDPostgresRows_loop (i + length (r # xs)) (res\<lparr>Total := T\<rparr>) rest"
    unfolding r list.map append_Cons pg_step using v i(1) by simp
  then show ?case by blast
qed

lemma pg_loop_counter:
  "\<exists>res'. \<forall>rest. DDDPostgresRows_loop i res (map pg_row_of xs @ rest) =
          DDDPostgresRows_loop (i + parsed_before xs (length xs)) res' rest"
proof (induction xs arbitrary: i res)
  case Nil
  show ?case by (auto simp: parsed_before_0)
next
  case (Cons r xs)
  obtain idv name price where r: "r = (idv, name, price)" by (cases r) auto
  show ?case
  proof (cases "leading_int price")
    case None
    then have "\<not> price_ok price" by (simp add: price_ok_iff)
    then have pb: "parsed_before (r # xs) (length (r # xs)) = parsed_before xs (length xs)"
      by (simp add: parsed_before_Cons_Suc r)
    from Cons.IH [of i "if i = 50 then res\<lparr>MagicCoffee := name\<rparr> else res"]
    show ?thesis
      unfolding pb unfolding r list.map append_Cons pg_step None by simp
  next
    case (Some v)
    then have "price_ok price" by (simp add: price_ok_iff)
    then have pb: "parsed_before (r # xs) (length (r # xs)) = Suc (parsed_before xs (length xs))"
      by (simp add: parsed_before_Cons_Suc r)
    from Cons.IH [of "i + 1" "(if i = 50 then res\<lparr>MagicCoffee := name\<rparr> else res)
               \<lparr>Total := to_int64 (Total res + v)\<rparr>"]
    show ?thesis
      unfolding pb unfolding r list.map append_Cons pg_step Some by simp
  qed
qed

text \<open>Some prices and what the conversion makes of them.\<close>

lemma leading_int_examples:
  "leading_int ''3.00'' = Some 3" "leading_int ''4.50'' = Some 4"
  "leading_int ''5.00'' = Some 5" "leading_int ''n/a'' = None" "leading_int ''free'' = None"
  by (simp_all add: leading_int_def spec_int_literal_def dec_val_def is_digit_def digit_val_def)

lemma price_ok_examples:
  "price_ok ''3.00''" "price_ok ''4.50''" "price_ok ''5.00''" "\<not> price_ok ''n/a''"
  "\<not> price_ok ''free''"
  by (simp_all add: price_ok_iff leading_int_examples)

lemma house_rows_run:
  "i + n \<le> 50 \<Longrightarrow>
   \<exists>T. DDDPostgresRows_loop i res (map pg_row_of (house_rows n) @ rest) =
        DDDPostgresRows_loop (i + n) (res\<lparr>Total := T\<rparr>) rest"
  using pg_loop_parsed_prefix [of "house_rows n" i res rest]
  by (simp add: house_rows_def price_ok_examples)

section \<open>The sentinel row (C1)\<close>

lemma pg_sentinel_at_50:
  assumes len: "50 < length rs" and ok: "\<forall>k\<le>50. price_ok (snd (snd (rs ! k)))"
  shows "pg_sentinel (DDDPostgresRows_loop 0 result (map pg_row_of rs)) =
           Some (fst (snd (rs ! 50)))"
proof -
  have p50: "parsed_before rs 50 = 50"
    using len ok by (intro parsed_before_all) auto
  have p51: "parsed_before rs 51 = 51"
    using len ok by (intro parsed_before_all) auto
  from pg_loop_sentinel [of 0 result rs] obtain res' where
    run: "DDDPostgresRows_loop 0 result (map pg_row_of rs) = Inr (res', None)"
    and alt: "(MagicCoffee res' = MagicCoffee result \<and>
                (\<forall>j<length rs. parsed_before rs j \<noteq> 50)) \<or>
              (\<exists>j<length rs. parsed_before rs j = 50 \<and>
                 MagicCoffee res' = fst (snd (rs ! j)) \<and>
                 (\<forall>j'<length rs. j < j' \<longrightarrow> parsed_before rs j' \<noteq> 50))"
    by auto
  from alt p50 len obtain j where j: "j < length rs" "parsed_before rs j = 50"
    and name: "MagicCoffee res' = fst (snd (rs ! j))"
    by blast
  have "j = 50"
  proof (rule ccontr)
    assume "j \<noteq> 50"
    then consider "j < 50" | "51 \<le> j" by linarith
    then show False
    proof cases
      case 1
      then have "parsed_before rs j = j"
        using len ok by (intro parsed_before_all) auto
      with j 1 show False by simp
    next
      case 2
      then have "parsed_before rs 51 \<le> parsed_before rs j"
        using j(1) by (intro parsed_before_mono) auto
      with p51 j show False by simp
    qed
  qed
  with name run show ?thesis by (simp add: pg_sentinel_def)
qed

lemma mysql_sentinel_last_51:
  assumes k: "k < length ms" and id: "fst (ms ! k) = 51"
    and later: "\<forall>j<length ms. k < j \<longrightarrow> fst (ms ! j) \<noteq> 51"
  shows "MagicCoffee (fst (DDDMySQLConnect_loop result (map Inr ms))) = fst (snd (ms ! k))"
proof -
  have split: "ms = take k ms @ ms ! k # drop (Suc k) ms"
    using k by (simp add: id_take_nth_drop)
  have "\<forall>r \<in> set (drop (Suc k) ms). fst r \<noteq> 51"
  proof
    fix r assume "r \<in> set (drop (Suc k) ms)"
    then obtain m where "m < length (drop (Suc k) ms)" "r = drop (Suc k) ms ! m"
      by (auto simp: in_set_conv_nth)
    then have "r = ms ! (Suc k + m)" "Suc k + m < length ms" by auto
    with later show "fst r \<noteq> 51" by auto
  qed
  then have none: "filter (\<lambda>r. fst r = 51) (drop (Suc k) ms) = []"
    by (simp add: filter_empty_conv)
  have "filter (\<lambda>r. fst r = 51) ms =
        filter (\<lambda>r. fst r = 51) (take k ms) @ [ms ! k]"
    by (subst split) (simp add: none id)
  then show ?thesis by (simp add: mysql_sentinel)
qed

text \<open>The last element a filter keeps is the element at the greatest index that passes.\<close>

lemma last_filter_index:
  "filter P xs \<noteq> [] \<Longrightarrow>
   \<exists>j<length xs. last (filter P xs) = xs ! j \<and> P (xs ! j) \<and>
      (\<forall>j'<length xs. j < j' \<longrightarrow> \<not> P (xs ! j'))"
proof (induction xs rule: rev_induct)
  case Nil
  then show ?case by simp
next
  case (snoc x xs)
  show ?case
  proof (cases "P x")
    case True
    have "length xs < length (xs @ [x])" by simp
    moreover have "last (filter P (xs @ [x])) = (xs @ [x]) ! length xs"
      using True by simp
    moreover have "P ((xs @ [x]) ! length xs)" using True by simp
    moreover have "\<forall>j'<length (xs @ [x]). length xs < j' \<longrightarrow> \<not> P ((xs @ [x]) ! j')"
      by simp
    ultimately show ?thesis by blast
  next
    case False
    with snoc.prems have ne: "filter P xs \<noteq> []" by simp
    from snoc.IH [OF ne] obtain j where j: "j < length xs"
      and l: "last (filter P xs) = xs ! j" and p: "P (xs ! j)"
      and later: "\<forall>j'<length xs. j < j' \<longrightarrow> \<not> P (xs ! j')"
      by blast
    have "j < length (xs @ [x])" using j by simp
    moreover have "last (filter P (xs @ [x])) = (xs @ [x]) ! j"
      using False l j by (simp add: nth_append)
    moreover have "P ((xs @ [x]) ! j)" using p j by (simp add: nth_append)
    moreover have "\<forall>j'<length (xs @ [x]). j < j' \<longrightarrow> \<not> P ((xs @ [x]) ! j')"
    proof (intro allI impI)
      fix j' assume a: "j' < length (xs @ [x])" "j < j'"
      show "\<not> P ((xs @ [x]) ! j')"
      proof (cases "j' < length xs")
        case True
        with later a(2) show ?thesis by (simp add: nth_append)
      next
        case False
        with a(1) have "j' = length xs" by simp
        with \<open>\<not> P x\<close> show ?thesis by simp
      qed
    qed
    ultimately show ?thesis by blast
  qed
qed

lemma mysql_sentinel_only_last_51:
  assumes k: "k < length ms" and d: "distinct (map (\<lambda>r. fst (snd r)) ms)"
    and fresh: "MagicCoffee result \<notin> set (map (\<lambda>r. fst (snd r)) ms)"
    and cap: "MagicCoffee (fst (DDDMySQLConnect_loop result (map Inr ms))) = fst (snd (ms ! k))"
  shows "fst (ms ! k) = 51 \<and> (\<forall>j<length ms. k < j \<longrightarrow> fst (ms ! j) \<noteq> 51)"
proof -
  let ?P = "\<lambda>r :: int \<times> string \<times> string. fst r = 51"
  have in_names: "fst (snd (ms ! k)) \<in> set (map (\<lambda>r. fst (snd r)) ms)"
    using k by (auto simp: in_set_conv_nth intro!: exI [of _ k])
  have ne: "filter ?P ms \<noteq> []"
  proof
    assume "filter ?P ms = []"
    then have "MagicCoffee (fst (DDDMySQLConnect_loop result (map Inr ms))) = MagicCoffee result"
      by (simp add: mysql_sentinel)
    with cap in_names fresh show False by simp
  qed
  from last_filter_index [OF ne] obtain j where j: "j < length ms"
    and l: "last (filter ?P ms) = ms ! j" and p: "fst (ms ! j) = 51"
    and later: "\<forall>j'<length ms. j < j' \<longrightarrow> fst (ms ! j') \<noteq> 51"
    by blast
  from ne l have "MagicCoffee (fst (DDDMySQLConnect_loop result (map Inr ms))) =
      fst (snd (ms ! j))"
    by (simp add: mysql_sentinel)
  with cap have eq: "map (\<lambda>r. fst (snd r)) ms ! j = map (\<lambda>r. fst (snd r)) ms ! k"
    using j k by simp
  have "(map (\<lambda>r. fst (snd r)) ms ! j = map (\<lambda>r. fst (snd r)) ms ! k) = (j = k)"
    using d j k by (intro nth_eq_iff_index_eq) simp_all
  with eq have "j = k" by blast
  with p later show ?thesis by simp
qed

text \<open>
  C1, as the code has it. Postgres path: when the prices of the first 51 rows all
  convert, the sentinel is the name column of the row at index 50, however many rows
  follow. MySQL path: the run returns no error, and the sentinel is the name column of the
  last row whose first column (the id read from the database) is 51, wherever that row
  stands; it is left as it was when no row has id 51. So a row with id 51 that no row
  with id 51 follows gives the sentinel its name, and, when the names of the rows are
  distinct and differ from the initial sentinel, the row at a given index (51, say) is the
  one whose name is captured exactly when it carries id 51 and no later row does.
\<close>

theorem sentinel_at_index:
  "(50 < length rs \<and> (\<forall>k\<le>50. price_ok (snd (snd (rs ! k)))) \<longrightarrow>
      pg_sentinel (DDDPostgresRows_loop 0 result (map pg_row_of rs)) =
        Some (fst (snd (rs ! 50)))) \<and>
   snd (DDDMySQLConnect_loop result (map Inr ms)) = None \<and>
   MagicCoffee (fst (DDDMySQLConnect_loop result (map Inr ms))) =
     (if filter (\<lambda>r. fst r = 51) ms = [] then MagicCoffee result
      else fst (snd (last (filter (\<lambda>r. fst r = 51) ms)))) \<and>
   (k < length ms \<and> fst (ms ! k) = 51 \<and> (\<forall>j<length ms. k < j \<longrightarrow> fst (ms ! j) \<noteq> 51) \<longrightarrow>
      MagicCoffee (fst (DDDMySQLConnect_loop result (map Inr ms))) = fst (snd (ms ! k))) \<and>
   ((\<forall>r \<in> set ms. fst r \<noteq> 51) \<longrightarrow>
      MagicCoffee (fst (DDDMySQLConnect_loop result (map Inr ms))) = MagicCoffee result) \<and>
   (k < length ms \<and> distinct (map (\<lambda>r. fst (snd r)) ms) \<and>
    MagicCoffee result \<notin> set (map (\<lambda>r. fst (snd r)) ms) \<longrightarrow>
      (MagicCoffee (fst (DDDMySQLConnect_loop result (map Inr ms))) = fst (snd (ms ! k))) =
      (fst (ms ! k) = 51 \<and> (\<forall>j<length ms. k < j \<longrightarrow> fst (ms ! j) \<noteq> 51)))"
proof -
  have none: "(\<forall>r \<in> set ms. fst r \<noteq> 51) \<longrightarrow>
      MagicCoffee (fst (DDDMySQLConnect_loop result (map Inr ms))) = MagicCoffee result"
  proof
    assume "\<forall>r \<in> set ms. fst r \<noteq> 51"
    then have "filter (\<lambda>r. fst r = 51) ms = []" by (simp add: filter_empty_conv)
    then show "MagicCoffee (fst (DDDMySQLConnect_loop result (map Inr ms))) = MagicCoffee result"
      by (simp add: mysql_sentinel)
  qed
  have iff: "k < length ms \<and> distinct (map (\<lambda>r. fst (snd r)) ms) \<and>
    MagicCoffee result \<notin> set (map (\<lambda>r. fst (snd r)) ms) \<longrightarrow>
      (MagicCoffee (fst (DDDMySQLConnect_loop result (map Inr ms))) = fst (snd (ms ! k))) =
      (fst (ms ! k) = 51 \<and> (\<forall>j<length ms. k < j \<longrightarrow> fst (ms ! j) \<noteq> 51))"
    using mysql_sentinel_only_last_51 [of k ms result] mysql_sentinel_last_51 [of k ms result]
    by blast
  show ?thesis
    using pg_sentinel_at_50 [of rs result] mysql_sentinel_last_51 [of k ms result]
      mysql_no_error [of result ms] mysql_sentinel [of result ms] none iff
    by blast
qed

theorem sentinel_at_index_witness:
  "pg_sentinel (DDDPostgresRows_loop 0 zero_payload
      (map pg_row_of (house_rows 50 @
         [(GoInt 51, ''Ethiopian'', ''4.50''), (GoInt 52, ''Kona'', ''5.00'')]))) =
     Some ''Ethiopian'' \<and>
   MagicCoffee (fst (DDDMySQLConnect_loop zero_payload
      (map Inr (replicate 51 (7, ''House'', ''3.00'') @ [(51, ''Ethiopian'', ''4.50'')])))) =
     ''Ethiopian'' \<and>
   MagicCoffee (fst (DDDMySQLConnect_loop zero_payload
      (map Inr (replicate 51 (7, ''House'', ''3.00'') @ [(52, ''Kona'', ''5.00'')])))) = [] \<and>
   MagicCoffee (fst (DDDMySQLConnect_loop zero_payload
      (map Inr [(50, ''House'', ''3.00''), (51, ''Ethiopian'', ''4.50''),
                (52, ''Kona'', ''5.00'')]))) \<noteq> ''Kona''"
proof -
  let ?rs = "house_rows 50 @ [(GoInt 51, ''Ethiopian'', ''4.50''), (GoInt 52, ''Kona'', ''5.00'')]"
  let ?ms = "replicate 51 (7::int, ''House'', ''3.00'') @ [(51, ''Ethiopian'', ''4.50'')]"
  let ?ns = "replicate 51 (7::int, ''House'', ''3.00'') @ [(52, ''Kona'', ''5.00'')]"
  let ?ds = "[(50::int, ''House'', ''3.00''), (51, ''Ethiopian'', ''4.50''), (52, ''Kona'', ''5.00'')]"
  have len: "50 < length ?rs" by (simp add: house_rows_def)
  have ok: "\<forall>k\<le>50. price_ok (snd (snd (?rs ! k)))"
    by (auto simp: house_rows_def nth_append price_ok_examples)
  have r50: "fst (snd (?rs ! 50)) = ''Ethiopian''"
    by (simp add: house_rows_def nth_append)
  have m: "51 < length ?ms" "fst (?ms ! 51) = 51" "fst (snd (?ms ! 51)) = ''Ethiopian''"
    "\<forall>j<length ?ms. 51 < j \<longrightarrow> fst (?ms ! j) \<noteq> 51"
    by (simp_all add: nth_append)
  from sentinel_at_index [where rs = ?rs and k = 51 and ms = ?ms and result = zero_payload]
    len ok r50 m
  have a: "pg_sentinel (DDDPostgresRows_loop 0 zero_payload (map pg_row_of ?rs)) =
      Some ''Ethiopian'' \<and>
    MagicCoffee (fst (DDDMySQLConnect_loop zero_payload (map Inr ?ms))) = ''Ethiopian''"
    by simp
  have n: "\<forall>r \<in> set ?ns. fst r \<noteq> 51" by auto
  from sentinel_at_index [where ms = ?ns and result = zero_payload] n
  have b: "MagicCoffee (fst (DDDMySQLConnect_loop zero_payload (map Inr ?ns))) = []"
    by (simp add: zero_payload_def)
  have dd: "2 < length ?ds" "distinct (map (\<lambda>r. fst (snd r)) ?ds)"
    "MagicCoffee zero_payload \<notin> set (map (\<lambda>r. fst (snd r)) ?ds)" "fst (?ds ! 2) \<noteq> 51"
    "fst (snd (?ds ! 2)) = ''Kona''"
    by (simp_all add: zero_payload_def)
  from sentinel_at_index [where ms = ?ds and k = 2 and result = zero_payload] dd
  have c: "MagicCoffee (fst (DDDMySQLConnect_loop zero_payload (map Inr ?ds))) \<noteq> ''Kona''"
    by (simp del: DDDMySQLConnect_loop.simps)
  from a b c show ?thesis by simp
qed

text \<open>
  The claim as first worded (the sentinel is the name of the row at index 50, respectively
  51) fails on both paths. Postgres: a first row whose price does not convert shifts the
  capture to the row at index 51. MySQL: with ids counted from 1 the row with id 51 stands
  at index 50 and is the one captured, not the row at index 51.
\<close>

theorem sentinel_not_at_index:
  "((GoInt 0, ''Sample'', ''free'') # house_rows 49 @
      [(GoInt 51, ''Ethiopian'', ''4.50''), (GoInt 52, ''Kona'', ''5.00'')]) ! 50 =
     (GoInt 51, ''Ethiopian'', ''4.50'') \<and>
   pg_sentinel (DDDPostgresRows_loop 0 zero_payload
      (map pg_row_of ((GoInt 0, ''Sample'', ''free'') # house_rows 49 @
         [(GoInt 51, ''Ethiopian'', ''4.50''), (GoInt 52, ''Kona'', ''5.00'')]))) =
     Some ''Kona'' \<and>
   (replicate 50 (1, ''House'', ''3.00'') @
      [(51, ''Ethiopian'', ''4.50''), (52, ''Kona'', ''5.00'')]) ! 51 =
     (52 :: int, ''Kona'', ''5.00'') \<and>
   MagicCoffee (fst (DDDMySQLConnect_loop zero_payload
      (map Inr (replicate 50 (1, ''House'', ''3.00'') @
         [(51, ''Ethiopian'', ''4.50''), (52, ''Kona'', ''5.00'')])))) = ''Ethiopian''"
proof -
  have a: "((GoInt 0, ''Sample'', ''free'') # house_rows 49 @
      [(GoInt 51, ''Ethiopian'', ''4.50''), (GoInt 52, ''Kona'', ''5.00'')]) ! 50 =
     (GoInt 51, ''Ethiopian'', ''4.50'')"
    by (simp add: house_rows_def nth_append nth_Cons')
  obtain T where T: "DDDPostgresRows_loop 0 zero_payload
        (map pg_row_of (house_rows 49) @
           [pg_row_of (GoInt 51, ''Ethiopian'', ''4.50''), pg_row_of (GoInt 52, ''Kona'', ''5.00'')]) =
      DDDPostgresRows_loop (0 + 49) (zero_payload\<lparr>Total := T\<rparr>)
        [pg_row_of (GoInt 51, ''Ethiopian'', ''4.50''), pg_row_of (GoInt 52, ''Kona'', ''5.00'')]"
    using house_rows_run [of 0 49 zero_payload] by auto
  have b: "pg_sentinel (DDDPostgresRows_loop 0 zero_payload
      (map pg_row_of ((GoInt 0, ''Sample'', ''free'') # house_rows 49 @
         [(GoInt 51, ''Ethiopian'', ''4.50''), (GoInt 52, ''Kona'', ''5.00'')]))) =
     Some ''Kona''"
    unfolding list.map map_append pg_step leading_int_examples option.case
    using T by (simp add: pg_step leading_int_examples pg_sentinel_def
        del: DDDPostgresRows_loop.simps(3))
  have c: "(replicate 50 (1, ''House'', ''3.00'') @
      [(51, ''Ethiopian'', ''4.50''), (52, ''Kona'', ''5.00'')]) ! 51 =
     (52 :: int, ''Kona'', ''5.00'')"
    by (simp add: nth_append)
  have d: "MagicCoffee (fst (DDDMySQLConnect_loop zero_payload
      (map Inr (replicate 50 (1, ''House'', ''3.00'') @
         [(51, ''Ethiopian'', ''4.50''), (52, ''Kona'', ''5.00'')])))) = ''Ethiopian''"
    unfolding mysql_sentinel by simp
  from a b c d show ?thesis by simp
qed

section \<open>The Postgres counter (C8)\<close>

lemma pg_sentinel_cases:
  "pg_sentinel (DDDPostgresRows_loop i res (map pg_row_of rs)) = Some (MagicCoffee res) \<and>
     (\<forall>j<length rs. i + parsed_before rs j \<noteq> 50) \<or>
   (\<exists>j<length rs. i + parsed_before rs j = 50 \<and>
      pg_sentinel (DDDPostgresRows_loop i res (map pg_row_of rs)) = Some (fst (snd (rs ! j))) \<and>
      (\<forall>j'<length rs. j < j' \<longrightarrow> i + parsed_before rs j' \<noteq> 50))"
  using pg_loop_sentinel [of i res rs] by (auto simp: pg_sentinel_def)

lemma pg_sentinel_early_skip:
  assumes k: "k < 50" "\<not> price_ok (snd (snd (rs ! k)))" and len: "50 < length rs"
  shows "pg_sentinel (DDDPostgresRows_loop 0 res (map pg_row_of rs)) = Some (MagicCoffee res) \<or>
    (\<exists>j. 50 < j \<and> j < length rs \<and>
       pg_sentinel (DDDPostgresRows_loop 0 res (map pg_row_of rs)) = Some (fst (snd (rs ! j))))"
proof -
  have late: "50 < j" if j: "j < length rs" "parsed_before rs j = 50" for j
  proof (rule ccontr)
    assume "\<not> 50 < j"
    then have j50: "j \<le> 50" by simp
    show False
    proof (cases "k < j")
      case True
      with k j(1) have "parsed_before rs j < j" by (intro parsed_before_skip [of k]) auto
      with j(2) j50 show False by simp
    next
      case False
      with k j50 have "j < 50" by simp
      moreover have "parsed_before rs j \<le> j" using j(1) by (simp add: parsed_before_le)
      ultimately show False using j(2) by simp
    qed
  qed
  from pg_sentinel_cases [of 0 res rs] late show ?thesis by auto
qed

lemma pg_sentinel_row50_skip:
  assumes ok: "\<forall>k<50. price_ok (snd (snd (rs ! k)))"
    and bad: "\<not> price_ok (snd (snd (rs ! 50)))" and len: "51 < length rs"
  shows "\<exists>j. 50 < j \<and> j < length rs \<and>
       pg_sentinel (DDDPostgresRows_loop 0 res (map pg_row_of rs)) = Some (fst (snd (rs ! j)))"
proof -
  have p50: "parsed_before rs 50 = 50"
    using len ok by (intro parsed_before_all) auto
  have p51: "parsed_before rs 51 = 50"
    using parsed_before_Suc [of 50 rs] len bad p50 by simp
  from pg_sentinel_cases [of 0 res rs] p50 len obtain j where
    j: "j < length rs" "parsed_before rs j = 50"
    and name: "pg_sentinel (DDDPostgresRows_loop 0 res (map pg_row_of rs)) =
                 Some (fst (snd (rs ! j)))"
    and last: "\<forall>j'<length rs. j < j' \<longrightarrow> parsed_before rs j' \<noteq> 50"
    by auto
  have "50 < j"
  proof (rule ccontr)
    assume "\<not> 50 < j"
    then have "j < 51" by simp
    with last len p51 show False by auto
  qed
  with j name show ?thesis by blast
qed

lemma pg_unparsed_at_50_overwritten:
  assumes "\<not> price_ok price"
  shows "DDDPostgresRows_loop 50 res
           (pg_row_of (idv, bean, price) # pg_row_of (idw, nxt, nxtprice) # rows) =
         DDDPostgresRows_loop 50 res (pg_row_of (idw, nxt, nxtprice) # rows)"
proof -
  from assms have "leading_int price = None" by (simp add: price_ok_iff)
  then show ?thesis
    unfolding pg_step by (cases "leading_int nxtprice") simp_all
qed

text \<open>
  C8, as the code has it. The counter of the Postgres loop advances only on rows whose
  price converts: after any prefix of rows it has grown by the number of rows of the prefix
  that converted. Consequently, when one of the first 50 rows has a price that does not
  convert, the sentinel is not taken from the 51st row: it is left as it was or is the name
  of a later row. When the first 50 rows convert and the 51st does not, the sentinel is the
  name of a later row as soon as there is one: at counter value 50 a row that fails to
  convert leaves no trace once the next row has been read.
\<close>

theorem postgres_counter_counts_parsed_rows:
  "(\<exists>res'. \<forall>rest. DDDPostgresRows_loop i res (map pg_row_of xs @ rest) =
           DDDPostgresRows_loop (i + parsed_before xs (length xs)) res' rest) \<and>
   (k < 50 \<and> \<not> price_ok (snd (snd (rs ! k))) \<and> 50 < length rs \<longrightarrow>
      pg_sentinel (DDDPostgresRows_loop 0 res (map pg_row_of rs)) = Some (MagicCoffee res) \<or>
      (\<exists>j. 50 < j \<and> j < length rs \<and>
         pg_sentinel (DDDPostgresRows_loop 0 res (map pg_row_of rs)) =
           Some (fst (snd (rs ! j))))) \<and>
   ((\<forall>k<50. price_ok (snd (snd (rs ! k)))) \<and> \<not> price_ok (snd (snd (rs ! 50))) \<and>
    51 < length rs \<longrightarrow>
      (\<exists>j. 50 < j \<and> j < length rs \<and>
         pg_sentinel (DDDPostgresRows_loop 0 res (map pg_row_of rs)) =
           Some (fst (snd (rs ! j))))) \<and>
   (\<not> price_ok price \<longrightarrow>
      DDDPostgresRows_loop 50 res
        (pg_row_of (idv, bean, price) # pg_row_of (idw, nxt, nxtprice) # rows) =
      DDDPostgresRows_loop 50 res (pg_row_of (idw, nxt, nxtprice) # rows))"
  using pg_loop_counter [of i res xs] pg_sentinel_early_skip [of k rs res]
    pg_sentinel_row50_skip [of rs res]
    pg_unparsed_at_50_overwritten [of price res idv bean idw nxt nxtprice rows]
  by blast

theorem postgres_counter_counts_parsed_rows_witness:
  "\<not> price_ok ''n/a'' \<and>
   pg_sentinel (DDDPostgresRows_loop 0 zero_payload
      (map pg_row_of (house_rows 50 @
         [(GoInt 51, ''Ethiopian'', ''n/a''), (GoInt 52, ''Kona'', ''5.00'')]))) = Some ''Kona'' \<and>
   DDDPostgresRows_loop 50 zero_payload
     [pg_row_of (GoInt 51, ''Ethiopian'', ''n/a''), pg_row_of (GoInt 52, ''Kona'', ''5.00'')] =
     Inr (zero_payload\<lparr>MagicCoffee := ''Kona'', Total := 5\<rparr>, None) \<and>
   \<not> price_ok ''free'' \<and>
   pg_sentinel (DDDPostgresRows_loop 0 zero_payload
      (map pg_row_of ((GoInt 0, ''Sample'', ''free'') # house_rows 49 @
         [(GoInt 51, ''Ethiopian'', ''4.50''), (GoInt 52, ''Kona'', ''5.00'')]))) \<in>
     {Some [], Some ''Kona''}"
proof -
  let ?rs = "house_rows 50 @ [(GoInt 51, ''Ethiopian'', ''n/a''), (GoInt 52, ''Kona'', ''5.00'')]"
  let ?sk = "(GoInt 0, ''Sample'', ''free'') # house_rows 49 @
         [(GoInt 51, ''Ethiopian'', ''4.50''), (GoInt 52, ''Kona'', ''5.00'')]"
  note inst = postgres_counter_counts_parsed_rows [where rs = ?rs and res = zero_payload
      and price = "''n/a''" and idv = "GoInt 51" and bean = "''Ethiopian''"
      and idw = "GoInt 52" and nxt = "''Kona''" and nxtprice = "''5.00''" and rows = "[]"]
  note early = postgres_counter_counts_parsed_rows [where rs = ?sk and res = zero_payload
      and k = 0]
  have ok: "\<forall>k<50. price_ok (snd (snd (?rs ! k)))"
    by (auto simp: house_rows_def nth_append price_ok_examples)
  have bad: "\<not> price_ok (snd (snd (?rs ! 50)))"
    by (simp add: house_rows_def nth_append price_ok_examples)
  have len: "51 < length ?rs" "length ?rs = 52" by (simp_all add: house_rows_def)
  from inst ok bad len(1) obtain j where j: "50 < j" "j < length ?rs"
    and s: "pg_sentinel (DDDPostgresRows_loop 0 zero_payload (map pg_row_of ?rs)) =
              Some (fst (snd (?rs ! j)))"
    by blast
  from j len(2) have "j = 51" by simp
  with s have a: "pg_sentinel (DDDPostgresRows_loop 0 zero_payload (map pg_row_of ?rs)) =
      Some ''Kona''"
    by (simp add: house_rows_def nth_append)
  from inst price_ok_examples(4)
  have "DDDPostgresRows_loop 50 zero_payload
     [pg_row_of (GoInt 51, ''Ethiopian'', ''n/a''), pg_row_of (GoInt 52, ''Kona'', ''5.00'')] =
     DDDPostgresRows_loop 50 zero_payload [pg_row_of (GoInt 52, ''Kona'', ''5.00'')]"
    by blast
  also have "\<dots> = Inr (zero_payload\<lparr>MagicCoffee := ''Kona'', Total := 5\<rparr>, None)"
    unfolding pg_step leading_int_examples by (simp add: to_int64_def zero_payload_def)
  finally have b: "DDDPostgresRows_loop 50 zero_payload
     [pg_row_of (GoInt 51, ''Ethiopian'', ''n/a''), pg_row_of (GoInt 52, ''Kona'', ''5.00'')] =
     Inr (zero_payload\<lparr>MagicCoffee := ''Kona'', Total := 5\<rparr>, None)" .
  have sk: "\<not> price_ok (snd (snd (?sk ! 0)))" "50 < length ?sk" "length ?sk = 52"
    by (simp_all add: house_rows_def price_ok_examples)
  from early sk(1,2)
  have "pg_sentinel (DDDPostgresRows_loop 0 zero_payload (map pg_row_of ?sk)) =
          Some (MagicCoffee zero_payload) \<or>
        (\<exists>j. 50 < j \<and> j < length ?sk \<and>
           pg_sentinel (DDDPostgresRows_loop 0 zero_payload (map pg_row_of ?sk)) =
             Some (fst (snd (?sk ! j))))"
    by simp
  then have c: "pg_sentinel (DDDPostgresRows_loop 0 zero_payload (map pg_row_of ?sk)) \<in>
     {Some [], Some ''Kona''}"
  proof (elim disjE exE conjE)
    assume "pg_sentinel (DDDPostgresRows_loop 0 zero_payload (map pg_row_of ?sk)) =
          Some (MagicCoffee zero_payload)"
    then show ?thesis by (simp add: zero_payload_def)
  next
    fix j assume j: "50 < j" "j < length ?sk"
      and s: "pg_sentinel (DDDPostgresRows_loop 0 zero_payload (map pg_row_of ?sk)) =
             Some (fst (snd (?sk ! j)))"
    from j sk(3) have "j = 51" by simp
    with s show ?thesis by (simp add: house_rows_def nth_append)
  qed
  from a b c price_ok_examples(4,5) show ?thesis by simp
qed

text \<open>
  The claim as first worded (an unparseable price among the first 51 rows means the
  sentinel is not the 51st row) fails when the 51st row is the unparseable one and the
  last: its name is captured before the conversion is tried, and no row follows to
  overwrite it.
\<close>

theorem last_row_unparsed_is_sentinel:
  "(house_rows 50 @ [(GoInt 51, ''Ethiopian'', ''n/a'')]) ! 50 =
     (GoInt 51, ''Ethiopian'', ''n/a'') \<and>
   length (house_rows 50 @ [(GoInt 51, ''Ethiopian'', ''n/a'')]) = 51 \<and>
   \<not> price_ok ''n/a'' \<and>
   pg_sentinel (DDDPostgresRows_loop 0 zero_payload
      (map pg_row_of (house_rows 50 @ [(GoInt 51, ''Ethiopian'', ''n/a'')]))) =
     Some ''Ethiopian''"
proof -
  obtain T where T: "DDDPostgresRows_loop 0 zero_payload
        (map pg_row_of (house_rows 50) @ [pg_row_of (GoInt 51, ''Ethiopian'', ''n/a'')]) =
      DDDPostgresRows_loop (0 + 50) (zero_payload\<lparr>Total := T\<rparr>)
        [pg_row_of (GoInt 51, ''Ethiopian'', ''n/a'')]"
    using house_rows_run [of 0 50 zero_payload] by auto
  have "pg_sentinel (DDDPostgresRows_loop 0 zero_payload
      (map pg_row_of (house_rows 50 @ [(GoInt 51, ''Ethiopian'', ''n/a'')]))) =
     Some ''Ethiopian''"
    using T by (simp add: pg_step leading_int_examples pg_sentinel_def
        del: DDDPostgresRows_loop.simps(3))
  then show ?thesis
    by (simp add: house_rows_def nth_append price_ok_examples)
qed

section \<open>Zero-valued fields of the response (C10)\<close>

text \<open>
  The members \<^verbatim>\<open>json.Marshal\<close> writes, and the only way the handler answers 200: one of the
  three builders returned a result without error, and the body is that result, with
  project and backend kind filled in, marshalled.
\<close>

lemma json_Marshal_members:
  "map_of (json_Marshal p) ''magic_coffee'' =
     (if MagicCoffee p = [] then None else Some (JString (MagicCoffee p))) \<and>
   map_of (json_Marshal p) ''total'' =
     (if Total p = 0 then None else Some (JNumber (Total p))) \<and>
   map_of (json_Marshal p) ''project'' =
     (if Project p = [] then None else Some (JString (Project p))) \<and>
   map_of (json_Marshal p) ''db'' = (if DB p = [] then None else Some (JString (DB p)))"
  by (simp add: json_Marshal_def)

lemma json_Marshal_keys:
  "map fst (json_Marshal p) =
     filter (\<lambda>k. map_of (json_Marshal p) k \<noteq> None)
       [''magic_coffee'', ''total'', ''project'', ''db'']"
  by (simp add: json_Marshal_def)

lemma json_Marshal_no_zero:
  "\<forall>m \<in> set (json_Marshal p). snd m \<noteq> JString [] \<and> snd m \<noteq> JNumber 0"
  by (simp add: json_Marshal_def)

lemma dddHandler_verify_success:
  "http_NewRequest w (bondCfg_BondURL w @ ''/v1/data_driven_decaf/verify'') = None \<Longrightarrow>
   client_Do w = Inr res \<Longrightarrow> 200 \<le> StatusCode res \<Longrightarrow> StatusCode res \<le> 299 \<Longrightarrow>
   ReadErr res = None \<Longrightarrow>
   snd (dddHandler_verify e w (evs, Inr (result, None))) =
     Responded 200
       (JsonText (json_Marshal (result\<lparr>Project := cfg_ProjectID w,
                                          DB := Getenv e ''DB_TYPE''\<rparr>)))"
  by (simp add: dddHandler_verify_def Let_def sendJson_ok StatusOK_def)

lemma dddHandler_verify_200:
  assumes "snd (dddHandler_verify e w cr) = Responded 200 b"
  shows "\<exists>evs result. cr = (evs, Inr (result, None)) \<and>
           b = JsonText (json_Marshal (result\<lparr>Project := cfg_ProjectID w,
                                                DB := Getenv e ''DB_TYPE''\<rparr>))"
proof -
  obtain evs r where cr: "cr = (evs, r)" by (cases cr) auto
  show ?thesis
  proof (cases r)
    case (Inl pn)
    with assms cr show ?thesis by (simp add: dddHandler_verify_def)
  next
    case (Inr pr)
    obtain result eo where pr: "pr = (result, eo)" by (cases pr) auto
    show ?thesis
    proof (cases eo)
      case (Some err)
      with assms cr Inr pr show ?thesis
        by (simp add: dddHandler_verify_def http_Error_def StatusInternalServerError_def)
    next
      case None
      obtain evs2 body eo2 where
        sj: "sendJson w ''/v1/data_driven_decaf/verify''
               (result\<lparr>Project := cfg_ProjectID w, DB := Getenv e ''DB_TYPE''\<rparr>) =
             (evs2, body, eo2)"
        by (cases "sendJson w ''/v1/data_driven_decaf/verify''
               (result\<lparr>Project := cfg_ProjectID w, DB := Getenv e ''DB_TYPE''\<rparr>)") auto
      show ?thesis
      proof (cases eo2)
        case (Some err)
        with assms cr Inr pr None sj show ?thesis
          by (simp add: dddHandler_verify_def Let_def http_Error_def
              StatusInternalServerError_def)
      next
        case None2: None
        with assms cr Inr pr None sj show ?thesis
          by (simp add: dddHandler_verify_def Let_def StatusOK_def)
      qed
    qed
  qed
qed

lemma dddHandler_200:
  assumes "snd (dddHandler e w) = Responded 200 b"
  shows "\<exists>cr evs result.
           cr \<in> {DDDAlloyConnect e w, DDDPostgresConnect e w, DDDMySQLConnect e w} \<and>
           cr = (evs, Inr (result, None)) \<and>
           b = JsonText (json_Marshal (result\<lparr>Project := cfg_ProjectID w,
                                                DB := Getenv e ''DB_TYPE''\<rparr>))"
proof -
  consider (a) "Getenv e ''DB_TYPE'' = ''ALLOY_DB''"
    | (p) "Getenv e ''DB_TYPE'' = ''CLOUD_SQL_POSTGRES''"
    | (m) "Getenv e ''DB_TYPE'' = ''CLOUD_SQL_MYSQL''"
    | (u) "Getenv e ''DB_TYPE'' \<noteq> ''ALLOY_DB''" "Getenv e ''DB_TYPE'' \<noteq> ''CLOUD_SQL_POSTGRES''"
          "Getenv e ''DB_TYPE'' \<noteq> ''CLOUD_SQL_MYSQL''"
    by blast
  then show ?thesis
  proof cases
    case a
    with assms have "snd (dddHandler_verify e w (DDDAlloyConnect e w)) = Responded 200 b"
      by (simp add: dddHandler_def)
    from dddHandler_verify_200 [OF this] show ?thesis by blast
  next
    case p
    with assms have "snd (dddHandler_verify e w (DDDPostgresConnect e w)) = Responded 200 b"
      by (simp add: dddHandler_def)
    from dddHandler_verify_200 [OF this] show ?thesis by blast
  next
    case m
    with assms have "snd (dddHandler_verify e w (DDDMySQLConnect e w)) = Responded 200 b"
      by (simp add: dddHandler_def)
    from dddHandler_verify_200 [OF this] show ?thesis by blast
  next
    case u
    with assms show ?thesis
      by (simp add: dddHandler_def Let_def http_Error_def StatusInternalServerError_def)
  qed
qed

text \<open>
  C10. Each of the four members of the marshalled payload is present exactly when its
  field is not the zero value, and then carries the field; no member holds an empty string
  or the number 0, and there are no other members. Whenever verification succeeds, the body of the handler's 200 response
  is the marshalled aggregation result (with project and backend kind filled in), whatever
  that result is: so it has a \<^verbatim>\<open>total\<close> member exactly when the total is not 0 and a
  \<^verbatim>\<open>magic_coffee\<close> member exactly when the sentinel is not empty, and the response to a
  request with zero rows has neither. Conversely every 200 response of the handler is such
  a body and holds no zero-valued member.
\<close>

theorem omitempty_fields:
  "map_of (json_Marshal p) ''magic_coffee'' =
     (if MagicCoffee p = [] then None else Some (JString (MagicCoffee p))) \<and>
   map_of (json_Marshal p) ''total'' =
     (if Total p = 0 then None else Some (JNumber (Total p))) \<and>
   map_of (json_Marshal p) ''project'' =
     (if Project p = [] then None else Some (JString (Project p))) \<and>
   map_of (json_Marshal p) ''db'' = (if DB p = [] then None else Some (JString (DB p))) \<and>
   (\<forall>m \<in> set (json_Marshal p). snd m \<noteq> JString [] \<and> snd m \<noteq> JNumber 0) \<and>
   map fst (json_Marshal p) =
     filter (\<lambda>k. map_of (json_Marshal p) k \<noteq> None)
       [''magic_coffee'', ''total'', ''project'', ''db''] \<and>
   (http_NewRequest w (bondCfg_BondURL w @ ''/v1/data_driven_decaf/verify'') = None \<and>
    client_Do w = Inr res \<and> 200 \<le> StatusCode res \<and> StatusCode res \<le> 299 \<and>
    ReadErr res = None \<longrightarrow>
      snd (dddHandler_verify e w (evs, Inr (result, None))) =
        Responded 200
          (JsonText (json_Marshal (result\<lparr>Project := cfg_ProjectID w,
                                             DB := Getenv e ''DB_TYPE''\<rparr>))) \<and>
      map_of (json_Marshal (result\<lparr>Project := cfg_ProjectID w,
                                     DB := Getenv e ''DB_TYPE''\<rparr>)) ''total'' =
        (if Total result = 0 then None else Some (JNumber (Total result))) \<and>
      map_of (json_Marshal (result\<lparr>Project := cfg_ProjectID w,
                                     DB := Getenv e ''DB_TYPE''\<rparr>)) ''magic_coffee'' =
        (if MagicCoffee result = [] then None else Some (JString (MagicCoffee result))) \<and>
      (Getenv e ''DB_TYPE'' = ''ALLOY_DB'' \<and> DDDAlloyConnect e w = (evs, Inr (result, None)) \<or>
       Getenv e ''DB_TYPE'' = ''CLOUD_SQL_POSTGRES'' \<and>
         DDDPostgresConnect e w = (evs, Inr (result, None)) \<or>
       Getenv e ''DB_TYPE'' = ''CLOUD_SQL_MYSQL'' \<and>
         DDDMySQLConnect e w = (evs, Inr (result, None)) \<longrightarrow>
         snd (dddHandler e w) =
           Responded 200
             (JsonText (json_Marshal (result\<lparr>Project := cfg_ProjectID w,
                                                DB := Getenv e ''DB_TYPE''\<rparr>)))) \<and>
      snd (dddHandler_verify e w (evs, Inr (zero_payload, None))) =
        Responded 200
          (JsonText (json_Marshal (zero_payload\<lparr>Project := cfg_ProjectID w,
                                                 DB := Getenv e ''DB_TYPE''\<rparr>))) \<and>
      map_of (json_Marshal (zero_payload\<lparr>Project := cfg_ProjectID w,
                                          DB := Getenv e ''DB_TYPE''\<rparr>)) ''total'' = None \<and>
      map_of (json_Marshal (zero_payload\<lparr>Project := cfg_ProjectID w,
                                          DB := Getenv e ''DB_TYPE''\<rparr>)) ''magic_coffee'' = None) \<and>
   (snd (dddHandler e w) = Responded 200 b \<longrightarrow>
      (\<exists>cr evs result.
          cr \<in> {DDDAlloyConnect e w, DDDPostgresConnect e w, DDDMySQLConnect e w} \<and>
          cr = (evs, Inr (result, None)) \<and>
          b = JsonText (json_Marshal (result\<lparr>Project := cfg_ProjectID w,
                                               DB := Getenv e ''DB_TYPE''\<rparr>)) \<and>
          (\<forall>m \<in> set (json_Marshal (result\<lparr>Project := cfg_ProjectID w,
                                               DB := Getenv e ''DB_TYPE''\<rparr>)).
              snd m \<noteq> JString [] \<and> snd m \<noteq> JNumber 0)))"
proof -
  let ?ok = "http_NewRequest w (bondCfg_BondURL w @ ''/v1/data_driven_decaf/verify'') = None \<and>
    client_Do w = Inr res \<and> 200 \<le> StatusCode res \<and> StatusCode res \<le> 299 \<and>
    ReadErr res = None"
  let ?out = "\<lambda>r. r\<lparr>Project := cfg_ProjectID w, DB := Getenv e ''DB_TYPE''\<rparr>"
  have resp: "?ok \<longrightarrow> snd (dddHandler_verify e w (evs, Inr (r, None))) =
      Responded 200 (JsonText (json_Marshal (?out r)))" for r
    using dddHandler_verify_success [of w res e evs r] by blast
  have tot: "map_of (json_Marshal (?out result)) ''total'' =
      (if Total result = 0 then None else Some (JNumber (Total result)))"
    using json_Marshal_members [of "?out result"] by simp
  have mag: "map_of (json_Marshal (?out result)) ''magic_coffee'' =
      (if MagicCoffee result = [] then None else Some (JString (MagicCoffee result)))"
    using json_Marshal_members [of "?out result"] by simp
  have ztot: "map_of (json_Marshal (?out zero_payload)) ''total'' = None"
    using json_Marshal_members [of "?out zero_payload"] by (simp add: zero_payload_def)
  have zmag: "map_of (json_Marshal (?out zero_payload)) ''magic_coffee'' = None"
    using json_Marshal_members [of "?out zero_payload"] by (simp add: zero_payload_def)
  have full: "?ok \<longrightarrow>
      (Getenv e ''DB_TYPE'' = ''ALLOY_DB'' \<and> DDDAlloyConnect e w = (evs, Inr (result, None)) \<or>
       Getenv e ''DB_TYPE'' = ''CLOUD_SQL_POSTGRES'' \<and>
         DDDPostgresConnect e w = (evs, Inr (result, None)) \<or>
       Getenv e ''DB_TYPE'' = ''CLOUD_SQL_MYSQL'' \<and>
         DDDMySQLConnect e w = (evs, Inr (result, None)) \<longrightarrow>
         snd (dddHandler e w) = Responded 200 (JsonText (json_Marshal (?out result))))"
  proof (intro impI)
    assume ok: ?ok
    assume c: "Getenv e ''DB_TYPE'' = ''ALLOY_DB'' \<and>
         DDDAlloyConnect e w = (evs, Inr (result, None)) \<or>
       Getenv e ''DB_TYPE'' = ''CLOUD_SQL_POSTGRES'' \<and>
         DDDPostgresConnect e w = (evs, Inr (result, None)) \<or>
       Getenv e ''DB_TYPE'' = ''CLOUD_SQL_MYSQL'' \<and>
         DDDMySQLConnect e w = (evs, Inr (result, None))"
    from resp [of result] ok
    have r: "snd (dddHandler_verify e w (evs, Inr (result, None))) =
      Responded 200 (JsonText (json_Marshal (?out result)))"
      by blast
    from c have "dddHandler e w = dddHandler_verify e w (evs, Inr (result, None))"
      by (auto simp: dddHandler_def)
    with r show "snd (dddHandler e w) = Responded 200 (JsonText (json_Marshal (?out result)))"
      by simp
  qed
  have only: "snd (dddHandler e w) = Responded 200 b \<longrightarrow>
      (\<exists>cr evs result.
          cr \<in> {DDDAlloyConnect e w, DDDPostgresConnect e w, DDDMySQLConnect e w} \<and>
          cr = (evs, Inr (result, None)) \<and>
          b = JsonText (json_Marshal (?out result)) \<and>
          (\<forall>m \<in> set (json_Marshal (?out result)).
              snd m \<noteq> JString [] \<and> snd m \<noteq> JNumber 0))"
  proof
    assume "snd (dddHandler e w) = Responded 200 b"
    from dddHandler_200 [OF this] obtain cr evs result where
      "cr \<in> {DDDAlloyConnect e w, DDDPostgresConnect e w, DDDMySQLConnect e w}"
      "cr = (evs, Inr (result, None))" "b = JsonText (json_Marshal (?out result))"
      by blast
    with json_Marshal_no_zero [of "?out result"]
    show "\<exists>cr evs result.
          cr \<in> {DDDAlloyConnect e w, DDDPostgresConnect e w, DDDMySQLConnect e w} \<and>
          cr = (evs, Inr (result, None)) \<and>
          b = JsonText (json_Marshal (?out result)) \<and>
          (\<forall>m \<in> set (json_Marshal (?out result)).
              snd m \<noteq> JString [] \<and> snd m \<noteq> JNumber 0)"
      by blast
  qed
  from json_Marshal_members [of p] json_Marshal_no_zero [of p] json_Marshal_keys [of p]
    resp [of result]
    resp [of zero_payload] tot mag ztot zmag full only
  show ?thesis by blast
qed

lemma demo_connect:
  "DDDMySQLConnect demo_env (quiet_world\<lparr>db_Query := Inr rows\<rparr>) =
     ([SqlOpen ''barista:s3cret@cloudsql-mysql(cymbal-proj:europe-west1:coffee-1)/cymbal'',
       RunQuery ''select * from coffee''],
      Inr (DDDMySQLConnect_loop zero_payload rows))"
  by (simp add: DDDMySQLConnect_def dbConnectionInfo_def mysql_dsn_def Let_def demo_env_def
      Getenv_def quiet_world_def defaultQuery_def)

theorem omitempty_fields_witness:
  "snd (dddHandler demo_env quiet_world) =
     Responded 200
       (JsonText [(''project'', JString ''cymbal-proj''), (''db'', JString ''CLOUD_SQL_MYSQL'')]) \<and>
   snd (dddHandler demo_env unpriced_world) =
     Responded 200
       (JsonText [(''magic_coffee'', JString ''Ethiopian''), (''project'', JString ''cymbal-proj''),
                  (''db'', JString ''CLOUD_SQL_MYSQL'')]) \<and>
   snd (dddHandler demo_env priced_world) =
     Responded 200
       (JsonText [(''magic_coffee'', JString ''Ethiopian''), (''total'', JNumber 4),
                  (''project'', JString ''cymbal-proj''), (''db'', JString ''CLOUD_SQL_MYSQL'')])"
proof -
  let ?evs = "[SqlOpen ''barista:s3cret@cloudsql-mysql(cymbal-proj:europe-west1:coffee-1)/cymbal'',
       RunQuery ''select * from coffee'']"
  let ?res = "\<lparr>StatusCode = 200, Body = ''ok'', ReadErr = None\<rparr>"
  have ty: "Getenv demo_env ''DB_TYPE'' = ''CLOUD_SQL_MYSQL''"
    by (simp add: demo_env_def Getenv_def)
  have loop0: "DDDMySQLConnect_loop zero_payload [] = (zero_payload, None)" by simp
  have loop1: "DDDMySQLConnect_loop zero_payload [Inr (51, ''Ethiopian'', ''n/a'')] =
      (zero_payload\<lparr>MagicCoffee := ''Ethiopian''\<rparr>, None)"
    unfolding mysql_step leading_int_examples by simp
  have loop2: "DDDMySQLConnect_loop zero_payload [Inr (51, ''Ethiopian'', ''4.50'')] =
      (zero_payload\<lparr>MagicCoffee := ''Ethiopian'', Total := 4\<rparr>, None)"
    unfolding mysql_step leading_int_examples by (simp add: to_int64_def zero_payload_def)
  have okw: "http_NewRequest (quiet_world\<lparr>db_Query := Inr rows\<rparr>)
       (bondCfg_BondURL (quiet_world\<lparr>db_Query := Inr rows\<rparr>) @ ''/v1/data_driven_decaf/verify'') = None"
    "client_Do (quiet_world\<lparr>db_Query := Inr rows\<rparr>) = Inr ?res"
    "cfg_ProjectID (quiet_world\<lparr>db_Query := Inr rows\<rparr>) = ''cymbal-proj''" for rows
    by (simp_all add: quiet_world_def)
  have q: "quiet_world = quiet_world\<lparr>db_Query := Inr []\<rparr>" by (simp add: quiet_world_def)
  have a: "snd (dddHandler demo_env (quiet_world\<lparr>db_Query := Inr []\<rparr>)) =
     Responded 200
       (JsonText [(''project'', JString ''cymbal-proj''), (''db'', JString ''CLOUD_SQL_MYSQL'')])"
    using omitempty_fields [where w = "quiet_world\<lparr>db_Query := Inr []\<rparr>" and res = ?res
        and e = demo_env and evs = ?evs and result = zero_payload]
      okw [of "[]"] ty demo_connect [of "[]"] loop0
    by (simp add: json_Marshal_def zero_payload_def)
  have b: "snd (dddHandler demo_env unpriced_world) =
     Responded 200
       (JsonText [(''magic_coffee'', JString ''Ethiopian''), (''project'', JString ''cymbal-proj''),
                  (''db'', JString ''CLOUD_SQL_MYSQL'')])"
    unfolding unpriced_world_def
    using omitempty_fields [where w = "quiet_world\<lparr>db_Query := Inr [Inr (51, ''Ethiopian'', ''n/a'')]\<rparr>"
        and res = ?res and e = demo_env and evs = ?evs
        and result = "zero_payload\<lparr>MagicCoffee := ''Ethiopian''\<rparr>"]
      okw [of "[Inr (51, ''Ethiopian'', ''n/a'')]"] ty
      demo_connect [of "[Inr (51, ''Ethiopian'', ''n/a'')]"] loop1
    by (simp add: json_Marshal_def zero_payload_def del: DDDMySQLConnect_loop.simps)
  have c: "snd (dddHandler demo_env priced_world) =
     Responded 200
       (JsonText [(''magic_coffee'', JString ''Ethiopian''), (''total'', JNumber 4),
                  (''project'', JString ''cymbal-proj''), (''db'', JString ''CLOUD_SQL_MYSQL'')])"
    unfolding priced_world_def
    using omitempty_fields [where w = "quiet_world\<lparr>db_Query := Inr [Inr (51, ''Ethiopian'', ''4.50'')]\<rparr>"
        and res = ?res and e = demo_env and evs = ?evs
        and result = "zero_payload\<lparr>MagicCoffee := ''Ethiopian'', Total := 4\<rparr>"]
      okw [of "[Inr (51, ''Ethiopian'', ''4.50'')]"] ty
      demo_connect [of "[Inr (51, ''Ethiopian'', ''4.50'')]"] loop2
    by (simp add: json_Marshal_def zero_payload_def del: DDDMySQLConnect_loop.simps)
  from a b c q show ?thesis by simp
qed

end
